theory Spec2Isabelle
  imports Main "HOL-Library.Sublist"
begin

section \<open>Strings as the server uses them\<close>

text \<open>
  JavaScript strings are modelled as \<^typ>\<open>string\<close>. A value that may be
  \<^verbatim>\<open>undefined\<close> (an optional route parameter, a missing header or body
  field, a record property that was never set) is a \<^typ>\<open>string option\<close>.
  White space is the ASCII white space matched by \<^verbatim>\<open>\s\<close> and removed by
  \<^verbatim>\<open>trim()\<close>; lower-casing is ASCII lower-casing.
\<close>

definition isWhitespace :: "char \<Rightarrow> bool" where
  "isWhitespace c = (c \<in> set [CHR '' '', CHR 0x09, CHR 0x0A, CHR 0x0B, CHR 0x0C, CHR 0x0D])"

definition trim :: "string \<Rightarrow> string" where
  "trim s = rev (dropWhile isWhitespace (rev (dropWhile isWhitespace s)))"

text \<open>\<^verbatim>\<open>s.replace(/\s+/g, r)\<close>: every maximal run of white space becomes \<open>r\<close>.\<close>

function replaceWs :: "string \<Rightarrow> string \<Rightarrow> string" where
  "replaceWs r [] = []"
| "replaceWs r (c # cs) =
     (if isWhitespace c then r @ replaceWs r (dropWhile isWhitespace cs)
      else c # replaceWs r cs)"
  by pat_completeness auto
termination
  by (relation "measure (\<lambda>(r, s). length s)")
     (auto simp: length_dropWhile_le less_Suc_eq_le)

definition lowerChar :: "char \<Rightarrow> char" where
  "lowerChar c =
     (let n = (of_char c :: nat) in if 65 \<le> n \<and> n \<le> 90 then char_of (n + 32) else c)"

definition toLowerCase :: "string \<Rightarrow> string" where
  "toLowerCase s = map lowerChar s"

text \<open>Truthiness of a possibly undefined string, \<^verbatim>\<open>x || ''\<close>, and
  the text a template literal inserts for it.\<close>

definition truthy :: "string option \<Rightarrow> bool" where
  "truthy x = (case x of None \<Rightarrow> False | Some s \<Rightarrow> s \<noteq> [])"

definition orEmpty :: "string option \<Rightarrow> string" where
  "orEmpty x = (case x of None \<Rightarrow> [] | Some s \<Rightarrow> s)"

definition templ :: "string option \<Rightarrow> string" where
  "templ x = (case x of None \<Rightarrow> ''undefined'' | Some s \<Rightarrow> s)"

section \<open>Paths\<close>

text \<open>
  \<^verbatim>\<open>path.join\<close> of Node on a POSIX host: the non-empty arguments are joined
  with a slash and the result is normalised (empty and \<^verbatim>\<open>.\<close> segments are
  dropped, \<^verbatim>\<open>..\<close> removes the segment before it).
\<close>

fun splitSep :: "string \<Rightarrow> string list" where
  "splitSep [] = [[]]"
| "splitSep (c # cs) =
     (if c = CHR ''/'' then [] # splitSep cs
      else (case splitSep cs of [] \<Rightarrow> [[c]] | s # ss \<Rightarrow> (c # s) # ss))"

fun joinSep :: "string list \<Rightarrow> string" where
  "joinSep [] = []"
| "joinSep [s] = s"
| "joinSep (s # t # ss) = s @ CHR ''/'' # joinSep (t # ss)"

fun normalizeSegs :: "bool \<Rightarrow> string list \<Rightarrow> string list \<Rightarrow> string list" where
  "normalizeSegs allowAboveRoot res [] = res"
| "normalizeSegs allowAboveRoot res (s # ss) =
     (if s = [] \<or> s = ''.'' then normalizeSegs allowAboveRoot res ss
      else if s = ''..'' then
        (if res \<noteq> [] \<and> last res \<noteq> ''..'' then normalizeSegs allowAboveRoot (butlast res) ss
         else if allowAboveRoot then normalizeSegs allowAboveRoot (res @ [''..'']) ss
         else normalizeSegs allowAboveRoot res ss)
      else normalizeSegs allowAboveRoot (res @ [s]) ss)"

definition posix_normalize :: "string \<Rightarrow> string" where
  "posix_normalize p =
     (if p = [] then ''.''
      else
        let isAbsolute = (hd p = CHR ''/'');
            trailingSeparator = (last p = CHR ''/'');
            r = joinSep (normalizeSegs (\<not> isAbsolute) [] (splitSep p))
        in if r = [] then (if isAbsolute then ''/'' else if trailingSeparator then ''./'' else ''.'')
           else (if isAbsolute then ''/'' else []) @ r @ (if trailingSeparator then ''/'' else []))"

definition path_join :: "string list \<Rightarrow> string" where
  "path_join args =
     (let xs = filter (\<lambda>a. a \<noteq> []) args
      in if xs = [] then ''.'' else posix_normalize (joinSep xs))"

text \<open>A plain path segment: a file or directory name.\<close>

definition plain :: "string \<Rightarrow> bool" where
  "plain s = (s \<noteq> [] \<and> CHR ''/'' \<notin> set s \<and> s \<noteq> ''.'' \<and> s \<noteq> ''..'')"

text \<open>The absolute path with the given segments.\<close>

definition absPath :: "string list \<Rightarrow> string" where
  "absPath segs = concat (map (\<lambda>s. CHR ''/'' # s) segs)"


text \<open>\<^verbatim>\<open>STORAGE_DIR = path.join(__dirname, 'storage')\<close>, a function of the
  directory of the server module.\<close>

definition storageDirOf :: "string \<Rightarrow> string" where
  "storageDirOf dirname = path_join [dirname, ''storage'']"

text \<open>\<^verbatim>\<open>hay.includes(needle)\<close>.\<close>

fun includesStr :: "string \<Rightarrow> string \<Rightarrow> bool" where
  "includesStr [] needle = (needle = [])"
| "includesStr (c # cs) needle = (prefix needle (c # cs) \<or> includesStr cs needle)"

section \<open>Data model\<close>

text \<open>
  A record of one of the four lists of \<^verbatim>\<open>fullBackupData\<close>, as the upload
  handler builds it (\<^verbatim>\<open>backupFileData\<close>). The property \<^verbatim>\<open>unit\<close> is
  set on notes only, so it is optional; \<^verbatim>\<open>type\<close> holds \<^verbatim>\<open>'pdf'\<close> or
  \<^verbatim>\<open>'image'\<close>.
\<close>

record fileRecord =
  r_id :: string
  r_title :: string
  r_description :: string
  r_fileName :: string
  r_storedFileName :: string
  r_fileSize :: string
  r_uploadDate :: string
  r_subject :: string
  r_type :: string
  r_filePath :: string
  r_unit :: "string option"

text \<open>A value of the \<^verbatim>\<open>fileMetadata\<close> map.\<close>

record metadataEntry =
  e_title :: string
  e_description :: string
  e_originalFileName :: string

record subjectEntry =
  s_id :: string
  s_name :: string
  s_units :: "string list"

record backup =
  b_subjects :: "subjectEntry list"
  b_notes :: "fileRecord list"
  b_practiceTests :: "fileRecord list"
  b_practicals :: "fileRecord list"
  b_assignments :: "fileRecord list"
  b_lastBackup :: "string option"

text \<open>
  The JavaScript \<^verbatim>\<open>Map\<close> \<^verbatim>\<open>fileMetadata\<close> keeps its entries in
  insertion order; it is a list of key-value pairs. \<^verbatim>\<open>set\<close> on a key that is
  present replaces the value in place, on a new key it appends.
\<close>

type_synonym metadata = "(string \<times> metadataEntry) list"

definition mapHas :: "metadata \<Rightarrow> string \<Rightarrow> bool" where
  "mapHas m k = (map_of m k \<noteq> None)"

definition mapSet :: "metadata \<Rightarrow> string \<Rightarrow> metadataEntry \<Rightarrow> metadata" where
  "mapSet m k v =
     (if mapHas m k then map (\<lambda>(k', v'). if k' = k then (k', v) else (k', v')) m
      else m @ [(k, v)])"

definition mapDelete :: "metadata \<Rightarrow> string \<Rightarrow> metadata" where
  "mapDelete m k = filter (\<lambda>(k', v'). k' \<noteq> k) m"

text \<open>
  The two persisted documents, as the values \<^verbatim>\<open>JSON.parse\<close> reads and
  \<^verbatim>\<open>JSON.stringify\<close> writes. A file may be missing or hold text that does not
  parse. A property of the backup document may be missing.
\<close>

datatype 'a doc = Absent | Corrupt | Doc 'a

record backupJson =
  j_subjects :: "subjectEntry list option"
  j_notes :: "fileRecord list option"
  j_practiceTests :: "fileRecord list option"
  j_practicals :: "fileRecord list option"
  j_assignments :: "fileRecord list option"
  j_lastBackup :: "string option"

text \<open>
  The server: the paths that exist under the storage directory, the two documents on
  disk (\<^verbatim>\<open>file-metadata.json\<close>, \<^verbatim>\<open>storage/sncop-backup.json\<close>) and the two
  module-level variables.
\<close>

record server =
  files :: "string list"
  metadataFile :: "metadata doc"
  backupFile :: "backupJson doc"
  fileMetadata :: metadata
  fullBackupData :: backup

definition emptyBackup :: backup where
  "emptyBackup =
     \<lparr>b_subjects = [], b_notes = [], b_practiceTests = [], b_practicals = [], b_assignments = [],
      b_lastBackup = None\<rparr>"

section \<open>Persisting and loading\<close>

text \<open>\<^verbatim>\<open>saveMetadata\<close>: both documents are written, the backup with the time of
  the write as \<^verbatim>\<open>lastBackup\<close>. The argument \<open>now\<close> is
  \<^verbatim>\<open>new Date().toISOString()\<close>. A document is the value that is serialised:
  equal values give the same text, and values that differ in a string give different
  texts.\<close>

definition backupData :: "string \<Rightarrow> backup \<Rightarrow> backupJson" where
  "backupData now b =
     \<lparr>j_subjects = Some (b_subjects b), j_notes = Some (b_notes b),
      j_practiceTests = Some (b_practiceTests b), j_practicals = Some (b_practicals b),
      j_assignments = Some (b_assignments b), j_lastBackup = Some now\<rparr>"

definition saveMetadata :: "string \<Rightarrow> server \<Rightarrow> server" where
  "saveMetadata now s =
     s\<lparr>metadataFile := Doc (fileMetadata s),
       backupFile := Doc (backupData now (fullBackupData s))\<rparr>"

text \<open>
  Reading the backup document: a missing \<^verbatim>\<open>assignments\<close> becomes the empty
  list; the log line after it reads \<^verbatim>\<open>.length\<close> of the other four lists and
  throws when one of them is missing (\<open>None\<close>).
\<close>

definition parseBackup :: "backupJson \<Rightarrow> backup option" where
  "parseBackup j =
     (case (j_subjects j, j_notes j, j_practiceTests j, j_practicals j) of
        (Some sl, Some nl, Some tsl, Some pl) \<Rightarrow>
          Some \<lparr>b_subjects = sl, b_notes = nl, b_practiceTests = tsl, b_practicals = pl,
                b_assignments = (case j_assignments j of None \<Rightarrow> [] | Some al \<Rightarrow> al),
                b_lastBackup = j_lastBackup j\<rparr>
      | _ \<Rightarrow> None)"

text \<open>The \<^verbatim>\<open>try\<close> block that loads both documents; any exception resets both
  variables.\<close>

definition loadMetadata :: "server \<Rightarrow> metadata \<times> backup" where
  "loadMetadata s =
     (case metadataFile s of
        Corrupt \<Rightarrow> ([], emptyBackup)
      | md \<Rightarrow>
          (let m = (case md of Doc m0 \<Rightarrow> m0 | _ \<Rightarrow> [])
           in case backupFile s of
                Absent \<Rightarrow> (m, emptyBackup)
              | Corrupt \<Rightarrow> ([], emptyBackup)
              | Doc j \<Rightarrow>
                  (case parseBackup j of
                     None \<Rightarrow> ([], emptyBackup)
                   | Some b \<Rightarrow> (m, b))))"

section \<open>Startup reconciliation\<close>

text \<open>The keys of the flat index, as the four \<^verbatim>\<open>forEach\<close> loops build them.\<close>

definition notesKey :: "fileRecord \<Rightarrow> string" where
  "notesKey r = r_subject r @ ''-notes-'' @ templ (r_unit r) @ ''-'' @ r_storedFileName r"

definition practiceTestsKey :: "fileRecord \<Rightarrow> string" where
  "practiceTestsKey r = r_subject r @ ''-practice-tests--'' @ r_storedFileName r"

definition practicalsKey :: "fileRecord \<Rightarrow> string" where
  "practicalsKey r = r_subject r @ ''-practicals--'' @ r_storedFileName r"

definition assignmentsKey :: "fileRecord \<Rightarrow> string" where
  "assignmentsKey r = r_subject r @ ''-assignments--'' @ r_storedFileName r"

definition entryOf :: "fileRecord \<Rightarrow> metadataEntry" where
  "entryOf r =
     \<lparr>e_title = r_title r, e_description = r_description r, e_originalFileName = r_fileName r\<rparr>"

text \<open>One iteration of a loop: the entry is set only when the key is not there.\<close>

definition backfillOne :: "(fileRecord \<Rightarrow> string) \<Rightarrow> metadata \<Rightarrow> fileRecord \<Rightarrow> metadata" where
  "backfillOne key m r = (if \<not> mapHas m (key r) then mapSet m (key r) (entryOf r) else m)"

definition backfill :: "metadata \<Rightarrow> backup \<Rightarrow> metadata" where
  "backfill m b =
     foldl (backfillOne assignmentsKey)
       (foldl (backfillOne practicalsKey)
         (foldl (backfillOne practiceTestsKey)
           (foldl (backfillOne notesKey) m (b_notes b))
           (b_practiceTests b))
         (b_practicals b))
       (b_assignments b)"

text \<open>A JavaScript \<^verbatim>\<open>Set\<close> of strings keeps first insertions in order.\<close>

definition setAdd :: "string list \<Rightarrow> string \<Rightarrow> string list" where
  "setAdd xs x = (if x \<in> set xs then xs else xs @ [x])"

definition addSubjects :: "string list \<Rightarrow> fileRecord list \<Rightarrow> string list" where
  "addSubjects acc rs = foldl (\<lambda>a r. if r_subject r \<noteq> [] then setAdd a (r_subject r) else a) acc rs"

definition allSubjects :: "backup \<Rightarrow> string list" where
  "allSubjects b =
     addSubjects (addSubjects (addSubjects (addSubjects [] (b_notes b)) (b_practiceTests b))
       (b_practicals b)) (b_assignments b)"

definition unitsOf :: "backup \<Rightarrow> string \<Rightarrow> string list" where
  "unitsOf b subject =
     foldl (\<lambda>a n. setAdd a (orEmpty (r_unit n))) []
       (filter (\<lambda>n. r_subject n = subject \<and> truthy (r_unit n)) (b_notes b))"

text \<open>
  The subjects pushed when the list is empty. The identifier of the \<open>i\<close>-th subject is
  \<^verbatim>\<open>Date.now().toString() + Math.random().toString(36).slice(2)\<close>, given here by
  \<open>newId i\<close>.
\<close>

definition reconstructSubjects :: "(nat \<Rightarrow> string) \<Rightarrow> backup \<Rightarrow> subjectEntry list" where
  "reconstructSubjects newId b =
     map (\<lambda>(i, subject). \<lparr>s_id = newId i, s_name = subject, s_units = unitsOf b subject\<rparr>)
       (enumerate 0 (allSubjects b))"

definition reconstruct :: "(nat \<Rightarrow> string) \<Rightarrow> backup \<Rightarrow> backup" where
  "reconstruct newId b =
     (if length (b_subjects b) = 0 then b\<lparr>b_subjects := b_subjects b @ reconstructSubjects newId b\<rparr>
      else b)"

text \<open>The whole block that runs when the module is loaded.\<close>

definition startup :: "(nat \<Rightarrow> string) \<Rightarrow> string \<Rightarrow> server \<Rightarrow> server" where
  "startup newId now s =
     (let (m0, b0) = loadMetadata s;
          initialSize = length m0;
          m1 = backfill m0 b0;
          b1 = reconstruct newId b0;
          s1 = s\<lparr>fileMetadata := m1, fullBackupData := b1\<rparr>
      in if length m1 > initialSize \<or> length (b_subjects b1) > 0 then saveMetadata now s1 else s1)"


section \<open>The storage directory\<close>

text \<open>
  The file system is the list of the paths that exist (files and directories).
  \<^verbatim>\<open>fs.ensureDirSync\<close> creates a directory and its parents,
  \<^verbatim>\<open>fs.removeSync\<close> removes a path and everything below it,
  \<^verbatim>\<open>fs.moveSync\<close> (without \<^verbatim>\<open>overwrite\<close>) throws when the source is
  missing or the destination exists, which includes the case that both are the same path.
  Creating a directory, removing a path that exists and writing a file are taken to
  succeed.
\<close>

definition existsSync :: "string list \<Rightarrow> string \<Rightarrow> bool" where
  "existsSync fs p = (p \<in> set fs)"

definition addPath :: "string list \<Rightarrow> string \<Rightarrow> string list" where
  "addPath fs p = (if p \<in> set fs then fs else fs @ [p])"

definition ancestors :: "string \<Rightarrow> string list" where
  "ancestors p = map (\<lambda>i. take i p) (filter (\<lambda>i. p ! i = CHR ''/'') [1..<length p])"

definition ensureDirSync :: "string list \<Rightarrow> string \<Rightarrow> string list" where
  "ensureDirSync fs p = foldl addPath fs (ancestors p @ [p])"

definition under :: "string \<Rightarrow> string \<Rightarrow> bool" where
  "under p q = (q = p \<or> prefix (p @ ''/'') q)"

definition removeSync :: "string list \<Rightarrow> string \<Rightarrow> string list" where
  "removeSync fs p = filter (\<lambda>q. \<not> under p q) fs"

definition moveSync :: "string list \<Rightarrow> string \<Rightarrow> string \<Rightarrow> string list option" where
  "moveSync fs src dest =
     (if \<not> existsSync fs src \<or> existsSync fs dest then None
      else Some (addPath (removeSync fs src) dest))"

section \<open>Errors\<close>

text \<open>
  The error responses of the handlers. \<open>InvalidType t u\<close> is the error of the multer
  destination callback, \<^verbatim>\<open>Invalid type: t\<close>, followed by
  \<^verbatim>\<open>(unit required for notes)\<close> when \<open>u\<close> holds. \<open>UnitRequired\<close> is the 400
  response \<^verbatim>\<open>Unit is required for notes\<close>, \<open>FileNotFound\<close> the 404 response
  \<^verbatim>\<open>File not found\<close>, \<open>InternalError\<close> a 500 response from a
  \<^verbatim>\<open>catch\<close> block.
\<close>

datatype error =
    NoFileUploaded
  | TitleRequired
  | SubjectRequired
  | TypeRequired
  | UnitRequired
  | InvalidType string bool
  | FileNotFound
  | InvalidSubjectName
  | InternalError

section \<open>Upload\<close>

text \<open>
  The file part of an upload as multer hands it on: the client's file name, the stored
  name made by the \<^verbatim>\<open>filename\<close> callback, and the two display fields computed
  from the size and the extension (\<^verbatim>\<open>formatFileSize\<close>, \<^verbatim>\<open>fileType\<close>).
\<close>

record upFile =
  f_originalname :: string
  f_filename :: string
  f_fileSize :: string
  f_fileType :: string

text \<open>The request: the three headers read by the destination callback, the body
  fields read by the handler, and the file part.\<close>

record uploadReq =
  h_subject :: "string option"
  h_type :: "string option"
  h_unit :: "string option"
  q_title :: "string option"
  q_subject :: "string option"
  q_type :: "string option"
  q_unit :: "string option"
  q_description :: "string option"
  q_file :: "upFile option"

text \<open>The readings of the clock during one upload: \<^verbatim>\<open>Date.now().toString()\<close>
  for the file and for a new subject, \<^verbatim>\<open>toLocaleDateString()\<close>, and the
  \<^verbatim>\<open>toISOString()\<close> of \<^verbatim>\<open>saveMetadata\<close>.\<close>

record clock =
  c_fileId :: string
  c_subjectId :: string
  c_uploadDate :: string
  c_now :: string

text \<open>The \<^verbatim>\<open>destination\<close> callback of the multer storage: the directory the
  file is written to.\<close>

definition destination ::
  "string \<Rightarrow> string option \<Rightarrow> string option \<Rightarrow> string option \<Rightarrow> error + string" where
  "destination STORAGE_DIR hs ht hu =
     (let subject = trim (orEmpty hs);
          type = trim (orEmpty ht);
          unit = trim (orEmpty hu)
      in if subject = [] \<or> type = [] then Inr (path_join [STORAGE_DIR, ''temp''])
         else if type = [] then Inl TypeRequired
         else if type = ''notes'' \<and> unit \<noteq> [] then
           Inr (path_join [STORAGE_DIR, subject, ''notes'', unit])
         else if type = ''practice-tests'' then
           Inr (path_join [STORAGE_DIR, subject, ''practice-tests''])
         else if type = ''practicals'' then
           Inr (path_join [STORAGE_DIR, subject, ''practicals''])
         else if type = ''assignments'' then
           Inr (path_join [STORAGE_DIR, subject, ''assignments''])
         else Inl (InvalidType type (type = ''notes'' \<and> unit = [])))"

text \<open>Multer writes the file to \<^verbatim>\<open>path.join(destination, filename)\<close>; that
  path is \<^verbatim>\<open>req.file.path\<close>.\<close>

definition multerStore ::
  "string \<Rightarrow> uploadReq \<Rightarrow> upFile \<Rightarrow> server \<Rightarrow> error + (string \<times> server)" where
  "multerStore STORAGE_DIR req f s =
     (case destination STORAGE_DIR (h_subject req) (h_type req) (h_unit req) of
        Inl e \<Rightarrow> Inl e
      | Inr dir \<Rightarrow>
          (let p = path_join [dir, f_filename f]
           in Inr (p, s\<lparr>files := addPath (ensureDirSync (files s) dir) p\<rparr>)))"

text \<open>The directory the handler moves a file to when multer put it in a path that
  contains \<^verbatim>\<open>temp\<close>.\<close>

definition correctPath ::
  "string \<Rightarrow> string \<Rightarrow> string \<Rightarrow> string option \<Rightarrow> string option" where
  "correctPath STORAGE_DIR subject type unit =
     (if type = ''notes'' \<and> truthy unit then
        Some (path_join [STORAGE_DIR, trim subject, ''notes'', trim (orEmpty unit)])
      else if type = ''practice-tests'' then
        Some (path_join [STORAGE_DIR, trim subject, ''practice-tests''])
      else if type = ''practicals'' then
        Some (path_join [STORAGE_DIR, trim subject, ''practicals''])
      else if type = ''assignments'' then
        Some (path_join [STORAGE_DIR, trim subject, ''assignments''])
      else None)"

text \<open>Insertion into the list of the category: records with the same stored file
  name and subject (and unit, for notes) are filtered out, then the record is pushed.\<close>

definition sameFile :: "string \<Rightarrow> string \<Rightarrow> fileRecord \<Rightarrow> bool" where
  "sameFile filename subject r = (r_storedFileName r = filename \<and> r_subject r = subject)"

definition sameNote :: "string \<Rightarrow> string \<Rightarrow> string \<Rightarrow> fileRecord \<Rightarrow> bool" where
  "sameNote filename subject unit r =
     (r_storedFileName r = filename \<and> r_subject r = subject \<and> r_unit r = Some unit)"

definition pushRecord :: "string \<Rightarrow> string \<Rightarrow> fileRecord \<Rightarrow> backup \<Rightarrow> backup" where
  "pushRecord type unit d b =
     (if type = ''notes'' then
        b\<lparr>b_notes :=
            filter (\<lambda>note. \<not> sameNote (r_storedFileName d) (r_subject d) unit note) (b_notes b)
            @ [d\<lparr>r_unit := Some unit\<rparr>]\<rparr>
      else if type = ''practice-tests'' then
        b\<lparr>b_practiceTests :=
            filter (\<lambda>test. \<not> sameFile (r_storedFileName d) (r_subject d) test) (b_practiceTests b)
            @ [d]\<rparr>
      else if type = ''practicals'' then
        b\<lparr>b_practicals :=
            filter (\<lambda>practical. \<not> sameFile (r_storedFileName d) (r_subject d) practical)
              (b_practicals b)
            @ [d]\<rparr>
      else if type = ''assignments'' then
        b\<lparr>b_assignments :=
            filter (\<lambda>assignment. \<not> sameFile (r_storedFileName d) (r_subject d) assignment)
              (b_assignments b)
            @ [d]\<rparr>
      else b)"

text \<open>\<^verbatim>\<open>findIndex\<close> by name, and \<^verbatim>\<open>units.push\<close> on the subject found.\<close>

fun findIndex :: "('a \<Rightarrow> bool) \<Rightarrow> 'a list \<Rightarrow> nat option" where
  "findIndex P [] = None"
| "findIndex P (x # xs) =
     (if P x then Some 0 else (case findIndex P xs of None \<Rightarrow> None | Some i \<Rightarrow> Some (Suc i)))"

definition pushUnit :: "string \<Rightarrow> subjectEntry \<Rightarrow> subjectEntry" where
  "pushUnit unit e = e\<lparr>s_units := s_units e @ [unit]\<rparr>"

text \<open>Subject auto-registration of the upload handler. The tests are on the type and
  the unit as sent, the values stored are trimmed.\<close>

definition registerSubject ::
  "string \<Rightarrow> string \<Rightarrow> string \<Rightarrow> string option \<Rightarrow> backup \<Rightarrow> backup" where
  "registerSubject newId subject type unit b =
     (let subjectExists = (\<exists>e \<in> set (b_subjects b). s_name e = trim subject)
      in if \<not> subjectExists then
           b\<lparr>b_subjects := b_subjects b @
               [\<lparr>s_id = newId, s_name = trim subject,
                 s_units = (if type = ''notes'' \<and> truthy unit then [trim (orEmpty unit)] else [])\<rparr>]\<rparr>
         else if type = ''notes'' \<and> truthy unit then
           (case findIndex (\<lambda>e. s_name e = trim subject) (b_subjects b) of
              None \<Rightarrow> b
            | Some subjectIndex \<Rightarrow>
                if trim (orEmpty unit) \<notin> set (s_units (b_subjects b ! subjectIndex)) then
                  b\<lparr>b_subjects := (b_subjects b)
                      [subjectIndex := pushUnit (trim (orEmpty unit)) (b_subjects b ! subjectIndex)]\<rparr>
                else b)
         else b)"

text \<open>
  The handler of \<^verbatim>\<open>POST /api/upload\<close>, run after multer has stored the file at
  \<open>path\<close>. The result is the error response, if any, and the server afterwards.
\<close>

definition uploadHandler ::
  "string \<Rightarrow> clock \<Rightarrow> uploadReq \<Rightarrow> upFile \<Rightarrow> string \<Rightarrow> server \<Rightarrow> error option \<times> server" where
  "uploadHandler STORAGE_DIR c req f path s =
     (if \<not> truthy (q_title req) \<or> trim (orEmpty (q_title req)) = [] then (Some TitleRequired, s)
      else if \<not> truthy (q_subject req) \<or> trim (orEmpty (q_subject req)) = [] then
        (Some SubjectRequired, s)
      else if \<not> truthy (q_type req) \<or> trim (orEmpty (q_type req)) = [] then (Some TypeRequired, s)
      else if q_type req = Some ''notes'' \<and>
              (\<not> truthy (q_unit req) \<or> trim (orEmpty (q_unit req)) = []) then
        (Some UnitRequired, s)
      else
        let title = orEmpty (q_title req);
            subject = orEmpty (q_subject req);
            type = orEmpty (q_type req);
            unit = q_unit req;
            description = q_description req;
            moved =
              (if includesStr path ''temp'' then
                 (case correctPath STORAGE_DIR subject type unit of
                    Some cp \<Rightarrow>
                      (let fs1 = ensureDirSync (files s) cp;
                           newPath = path_join [cp, f_filename f]
                       in case moveSync fs1 path newPath of
                            None \<Rightarrow> Inl fs1
                          | Some fs2 \<Rightarrow> Inr (newPath, fs2))
                  | None \<Rightarrow> Inr (path, files s))
               else Inr (path, files s))
        in case moved of
             Inl fs1 \<Rightarrow> (Some InternalError, s\<lparr>files := fs1\<rparr>)
           | Inr (filePath, fs2) \<Rightarrow>
               let metadataKey =
                     trim subject @ ''-'' @ trim type @ ''-'' @ trim (orEmpty unit) @ ''-'' @ f_filename f;
                   m = mapSet (fileMetadata s) metadataKey
                         \<lparr>e_title = trim title, e_description = trim (orEmpty description),
                          e_originalFileName = f_originalname f\<rparr>;
                   backupFileData =
                     \<lparr>r_id = c_fileId c, r_title = trim title,
                      r_description = trim (orEmpty description),
                      r_fileName = f_originalname f, r_storedFileName = f_filename f,
                      r_fileSize = f_fileSize f, r_uploadDate = c_uploadDate c,
                      r_subject = trim subject, r_type = f_fileType f, r_filePath = filePath,
                      r_unit = None\<rparr>;
                   b1 = pushRecord (trim type) (trim (orEmpty unit)) backupFileData (fullBackupData s);
                   b2 = registerSubject (c_subjectId c) subject type unit b1
               in (None, saveMetadata (c_now c)
                           (s\<lparr>files := fs2, fileMetadata := m, fullBackupData := b2\<rparr>)))"

text \<open>The whole route: multer, then the handler.\<close>

definition upload :: "string \<Rightarrow> clock \<Rightarrow> uploadReq \<Rightarrow> server \<Rightarrow> error option \<times> server" where
  "upload STORAGE_DIR c req s =
     (case q_file req of
        None \<Rightarrow> (Some NoFileUploaded, s)
      | Some f \<Rightarrow>
          (case multerStore STORAGE_DIR req f s of
             Inl e \<Rightarrow> (Some e, s)
           | Inr (path, s1) \<Rightarrow> uploadHandler STORAGE_DIR c req f path s1))"


section \<open>Subjects\<close>

definition createSubjectStructure :: "string \<Rightarrow> string list \<Rightarrow> string \<Rightarrow> string list \<Rightarrow> string list" where
  "createSubjectStructure STORAGE_DIR fs subjectName units =
     (let subjectPath = path_join [STORAGE_DIR, subjectName];
          fs1 = ensureDirSync fs subjectPath;
          notesPath = path_join [subjectPath, ''notes''];
          fs2 = ensureDirSync fs1 notesPath;
          fs3 = foldl (\<lambda>a unit. ensureDirSync a (path_join [notesPath, unit])) fs2 units;
          fs4 = ensureDirSync fs3 (path_join [subjectPath, ''practice-tests'']);
          fs5 = ensureDirSync fs4 (path_join [subjectPath, ''practicals''])
      in ensureDirSync fs5 (path_join [subjectPath, ''assignments'']))"

text \<open>\<^verbatim>\<open>POST /api/subjects\<close> with body \<^verbatim>\<open>{name, units}\<close>: the entry of an
  existing subject of that name is replaced, otherwise the entry is pushed.\<close>

definition createSubject ::
  "string \<Rightarrow> string \<Rightarrow> string \<Rightarrow> string \<Rightarrow> string list option \<Rightarrow> server \<Rightarrow> server" where
  "createSubject STORAGE_DIR newId now name units s =
     (let fs1 = createSubjectStructure STORAGE_DIR (files s) name
                  (case units of None \<Rightarrow> [] | Some us \<Rightarrow> us);
          b = fullBackupData s;
          subjectData = \<lparr>s_id = newId, s_name = name,
                         s_units = (case units of None \<Rightarrow> [] | Some us \<Rightarrow> us)\<rparr>;
          b1 = (case findIndex (\<lambda>e. s_name e = name) (b_subjects b) of
                  Some existingSubjectIndex \<Rightarrow>
                    b\<lparr>b_subjects := (b_subjects b)[existingSubjectIndex := subjectData]\<rparr>
                | None \<Rightarrow> b\<lparr>b_subjects := b_subjects b @ [subjectData]\<rparr>)
      in saveMetadata now (s\<lparr>files := fs1, fullBackupData := b1\<rparr>))"

text \<open>\<^verbatim>\<open>POST /api/subjects/:subjectName/units\<close> with body
  \<^verbatim>\<open>{unitName}\<close>.\<close>

definition addUnit :: "string \<Rightarrow> string \<Rightarrow> string \<Rightarrow> string \<Rightarrow> server \<Rightarrow> server" where
  "addUnit STORAGE_DIR now subjectName unitName s =
     (let unitPath = path_join [STORAGE_DIR, subjectName, ''notes'', unitName];
          s1 = s\<lparr>files := ensureDirSync (files s) unitPath\<rparr>;
          b = fullBackupData s
      in case findIndex (\<lambda>e. s_name e = subjectName) (b_subjects b) of
           Some subjectIndex \<Rightarrow>
             if unitName \<notin> set (s_units (b_subjects b ! subjectIndex)) then
               saveMetadata now
                 (s1\<lparr>fullBackupData :=
                       b\<lparr>b_subjects := (b_subjects b)
                           [subjectIndex := pushUnit unitName (b_subjects b ! subjectIndex)]\<rparr>\<rparr>)
             else s1
         | None \<Rightarrow> s1)"

text \<open>\<^verbatim>\<open>DELETE /api/subjects/:subjectName\<close>.\<close>

definition deleteSubject :: "string \<Rightarrow> string \<Rightarrow> string \<Rightarrow> server \<Rightarrow> error option \<times> server" where
  "deleteSubject STORAGE_DIR now subjectName s =
     (if subjectName = [] \<or> toLowerCase subjectName = ''temp'' then (Some InvalidSubjectName, s)
      else
        let subjectPath = path_join [STORAGE_DIR, subjectName];
            fs1 = (if existsSync (files s) subjectPath then removeSync (files s) subjectPath
                   else files s);
            b = fullBackupData s;
            b1 = b\<lparr>b_subjects := filter (\<lambda>e. s_name e \<noteq> subjectName) (b_subjects b),
                   b_notes := filter (\<lambda>n. r_subject n \<noteq> subjectName) (b_notes b),
                   b_practiceTests := filter (\<lambda>t. r_subject t \<noteq> subjectName) (b_practiceTests b),
                   b_practicals := filter (\<lambda>p. r_subject p \<noteq> subjectName) (b_practicals b),
                   b_assignments := filter (\<lambda>a. r_subject a \<noteq> subjectName) (b_assignments b)\<rparr>
        in (None, saveMetadata now (s\<lparr>files := fs1, fullBackupData := b1\<rparr>)))"

section \<open>Serving and deleting a file\<close>

text \<open>
  The route parameters of \<^verbatim>\<open>/api/files/:subject/:type/:unit?/:filename\<close>:
  \<open>unit\<close> is optional. Both handlers start with the same derivation of
  \<^verbatim>\<open>filePath\<close>.
\<close>

definition resolveFilePath ::
  "string \<Rightarrow> string \<Rightarrow> string \<Rightarrow> string option \<Rightarrow> string \<Rightarrow> string" where
  "resolveFilePath STORAGE_DIR subject type unit filename =
     (if type = ''notes'' \<and> truthy unit then
        path_join [STORAGE_DIR, subject, ''notes'', orEmpty unit, filename]
      else if type = ''practice-tests'' then
        path_join [STORAGE_DIR, subject, ''practice-tests'', filename]
      else if type = ''practicals'' then
        path_join [STORAGE_DIR, subject, ''practicals'', filename]
      else if type = ''assignments'' then
        path_join [STORAGE_DIR, subject, ''assignments'', filename]
      else path_join [STORAGE_DIR, subject, type, filename])"

text \<open>The \<^verbatim>\<open>alternativePaths\<close> of \<^verbatim>\<open>GET\<close>.\<close>

definition getAlternativePaths ::
  "string \<Rightarrow> string \<Rightarrow> string \<Rightarrow> string option \<Rightarrow> string \<Rightarrow> string list" where
  "getAlternativePaths STORAGE_DIR subject type unit filename =
     (if type = ''notes'' \<and> truthy unit then
        [path_join [STORAGE_DIR, subject, ''notes'', replaceWs ''_'' (orEmpty unit), filename],
         path_join [STORAGE_DIR, subject, ''notes'', replaceWs ''-'' (orEmpty unit), filename],
         path_join [STORAGE_DIR, subject, ''notes'', toLowerCase (orEmpty unit), filename]]
      else if type = ''practice-tests'' then
        [path_join [STORAGE_DIR, replaceWs ''_'' subject, ''practice-tests'', filename],
         path_join [STORAGE_DIR, replaceWs ''-'' subject, ''practice-tests'', filename],
         path_join [STORAGE_DIR, toLowerCase subject, ''practice-tests'', filename]]
      else if type = ''practicals'' then
        [path_join [STORAGE_DIR, replaceWs ''_'' subject, ''practicals'', filename],
         path_join [STORAGE_DIR, replaceWs ''-'' subject, ''practicals'', filename],
         path_join [STORAGE_DIR, toLowerCase subject, ''practicals'', filename]]
      else if type = ''assignments'' then
        [path_join [STORAGE_DIR, replaceWs ''_'' subject, ''assignments'', filename],
         path_join [STORAGE_DIR, replaceWs ''-'' subject, ''assignments'', filename],
         path_join [STORAGE_DIR, toLowerCase subject, ''assignments'', filename]]
      else [])
     @
     (if type \<noteq> ''practice-tests'' \<and> type \<noteq> ''practicals'' \<and> type \<noteq> ''assignments'' then
        [path_join [STORAGE_DIR, replaceWs ''_'' subject, type, filename],
         path_join [STORAGE_DIR, replaceWs ''-'' subject, type, filename]]
      else [])"

text \<open>\<^verbatim>\<open>GET /api/files/:subject/:type/:unit?/:filename\<close>: the path of the file
  that is sent, or the 404 response.\<close>

definition getFile ::
  "string \<Rightarrow> string \<Rightarrow> string \<Rightarrow> string option \<Rightarrow> string \<Rightarrow> server \<Rightarrow> error + string" where
  "getFile STORAGE_DIR subject type unit filename s =
     (let filePath = resolveFilePath STORAGE_DIR subject type unit filename
      in if \<not> existsSync (files s) filePath then
           (case find (existsSync (files s))
                   (getAlternativePaths STORAGE_DIR subject type unit filename) of
              None \<Rightarrow> Inl FileNotFound
            | Some foundPath \<Rightarrow> Inr foundPath)
         else Inr filePath)"

text \<open>The \<^verbatim>\<open>alternativePaths\<close> of \<^verbatim>\<open>DELETE\<close>.\<close>

definition deleteAlternativePaths ::
  "string \<Rightarrow> string \<Rightarrow> string \<Rightarrow> string option \<Rightarrow> string \<Rightarrow> string list" where
  "deleteAlternativePaths STORAGE_DIR subject type unit filename =
     (if type = ''notes'' \<and> truthy unit then
        [path_join [STORAGE_DIR, subject, ''notes'', replaceWs ''_'' (orEmpty unit), filename],
         path_join [STORAGE_DIR, subject, ''notes'', replaceWs ''-'' (orEmpty unit), filename],
         path_join [STORAGE_DIR, subject, ''notes'', toLowerCase (orEmpty unit), filename]]
      else [])
     @
     [path_join [STORAGE_DIR, replaceWs ''_'' subject, type, filename],
      path_join [STORAGE_DIR, replaceWs ''-'' subject, type, filename]]"

text \<open>What both branches of \<^verbatim>\<open>DELETE\<close> do once a path has been removed: the
  index entry is deleted and the list of the category is filtered.\<close>

definition removeRecords :: "string \<Rightarrow> string \<Rightarrow> string option \<Rightarrow> string \<Rightarrow> backup \<Rightarrow> backup" where
  "removeRecords subject type unit filename b =
     (if type = ''notes'' then
        b\<lparr>b_notes := filter (\<lambda>note. \<not> sameNote filename subject (orEmpty unit) note) (b_notes b)\<rparr>
      else if type = ''practice-tests'' then
        b\<lparr>b_practiceTests := filter (\<lambda>test. \<not> sameFile filename subject test) (b_practiceTests b)\<rparr>
      else if type = ''practicals'' then
        b\<lparr>b_practicals :=
            filter (\<lambda>practical. \<not> sameFile filename subject practical) (b_practicals b)\<rparr>
      else if type = ''assignments'' then
        b\<lparr>b_assignments :=
            filter (\<lambda>assignment. \<not> sameFile filename subject assignment) (b_assignments b)\<rparr>
      else b)"

definition deleteAt ::
  "string \<Rightarrow> string \<Rightarrow> string \<Rightarrow> string option \<Rightarrow> string \<Rightarrow> string \<Rightarrow> server \<Rightarrow> server" where
  "deleteAt now subject type unit filename p s =
     (let metadataKey = subject @ ''-'' @ type @ ''-'' @ orEmpty unit @ ''-'' @ filename
      in saveMetadata now
           (s\<lparr>files := removeSync (files s) p,
              fileMetadata := mapDelete (fileMetadata s) metadataKey,
              fullBackupData := removeRecords subject type unit filename (fullBackupData s)\<rparr>))"

text \<open>\<^verbatim>\<open>DELETE /api/files/:subject/:type/:unit?/:filename\<close>: the server after a
  successful delete, or the 404 response, which leaves the server as it was.\<close>

definition deleteFile ::
  "string \<Rightarrow> string \<Rightarrow> string \<Rightarrow> string \<Rightarrow> string option \<Rightarrow> string \<Rightarrow> server \<Rightarrow> error + server" where
  "deleteFile STORAGE_DIR now subject type unit filename s =
     (let filePath = resolveFilePath STORAGE_DIR subject type unit filename
      in if existsSync (files s) filePath then
           Inr (deleteAt now subject type unit filename filePath s)
         else
           (case find (existsSync (files s))
                   (deleteAlternativePaths STORAGE_DIR subject type unit filename) of
              Some altPath \<Rightarrow> Inr (deleteAt now subject type unit filename altPath s)
            | None \<Rightarrow> Inl FileNotFound))"


text \<open>The path removed by a successful \<^verbatim>\<open>DELETE\<close>: the derived path when it
  exists, otherwise the first alternative that exists.\<close>

definition deletedPath ::
  "string \<Rightarrow> string \<Rightarrow> string \<Rightarrow> string option \<Rightarrow> string \<Rightarrow> server \<Rightarrow> string option" where
  "deletedPath STORAGE_DIR subject type unit filename s =
     find (existsSync (files s))
       (resolveFilePath STORAGE_DIR subject type unit filename
        # deleteAlternativePaths STORAGE_DIR subject type unit filename)"

section \<open>Requests\<close>

text \<open>
  The requests that write \<^verbatim>\<open>fullBackupData\<close> or the storage directory, and the
  request that serves a file. The other routes (directory listing, file verification,
  storage synchronisation, health, accounts) only read the two variables.
\<close>

datatype request =
    Upload clock uploadReq
  | CreateSubject string string string "string list option"
  | AddUnit string string string
  | GetFile string string "string option" string
  | DeleteFile string string string "string option" string
  | DeleteSubject string string

fun handle :: "string \<Rightarrow> request \<Rightarrow> server \<Rightarrow> server" where
  "handle dir (Upload c req) s = snd (upload dir c req s)"
| "handle dir (CreateSubject newId now name units) s = createSubject dir newId now name units s"
| "handle dir (AddUnit now subjectName unitName) s = addUnit dir now subjectName unitName s"
| "handle dir (GetFile subject type unit filename) s = s"
| "handle dir (DeleteFile now subject type unit filename) s =
     (case deleteFile dir now subject type unit filename s of Inl e \<Rightarrow> s | Inr s' \<Rightarrow> s')"
| "handle dir (DeleteSubject now subjectName) s = snd (deleteSubject dir now subjectName s)"

section \<open>Notions used to state the properties\<close>

text \<open>The distinct elements of a list in the order of their first occurrence.\<close>

definition firstSeen :: "'a list \<Rightarrow> 'a list" where
  "firstSeen xs = rev (remdups (rev xs))"

text \<open>The list of a category, and the identity of a record in it.\<close>

definition listOf :: "string \<Rightarrow> backup \<Rightarrow> fileRecord list" where
  "listOf type b =
     (if type = ''notes'' then b_notes b
      else if type = ''practice-tests'' then b_practiceTests b
      else if type = ''practicals'' then b_practicals b
      else if type = ''assignments'' then b_assignments b
      else [])"

definition sameIdentity :: "string \<Rightarrow> string \<Rightarrow> string \<Rightarrow> string \<Rightarrow> fileRecord \<Rightarrow> bool" where
  "sameIdentity type filename subject unit r =
     (if type = ''notes'' then sameNote filename subject unit r else sameFile filename subject r)"

definition categories :: "string list" where
  "categories = [''notes'', ''practice-tests'', ''practicals'', ''assignments'']"

text \<open>Every subject entry keeps its place and its name, and its units are extended at
  the end only.\<close>

definition keepsUnits :: "subjectEntry \<Rightarrow> subjectEntry \<Rightarrow> bool" where
  "keepsUnits e e' = (s_name e' = s_name e \<and> prefix (s_units e) (s_units e'))"

definition unitsGrow :: "backup \<Rightarrow> backup \<Rightarrow> bool" where
  "unitsGrow b b' =
     (length (b_subjects b) \<le> length (b_subjects b') \<and>
      list_all2 keepsUnits (b_subjects b) (take (length (b_subjects b)) (b_subjects b')))"

text \<open>The requests other than the deletion of a subject and the creation of a subject
  whose name is already registered.\<close>

fun accumulating :: "request \<Rightarrow> server \<Rightarrow> bool" where
  "accumulating (CreateSubject newId now name units) s =
     (name \<notin> set (map s_name (b_subjects (fullBackupData s))))"
| "accumulating (DeleteSubject now subjectName) s = False"
| "accumulating r s = True"

text \<open>A backup document without its time stamp.\<close>

definition withoutLastBackup :: "backupJson doc \<Rightarrow> backupJson doc" where
  "withoutLastBackup d = (case d of Doc j \<Rightarrow> Doc (j\<lparr>j_lastBackup := None\<rparr>) | x \<Rightarrow> x)"

section \<open>Example data\<close>

definition exampleServer :: "string list \<Rightarrow> server" where
  "exampleServer fs =
     \<lparr>files = fs, metadataFile = Absent, backupFile = Absent, fileMetadata = [],
      fullBackupData = emptyBackup\<rparr>"

definition exampleRecord :: "string \<Rightarrow> string option \<Rightarrow> string \<Rightarrow> fileRecord" where
  "exampleRecord subject unit filename =
     \<lparr>r_id = ''1700000000123'', r_title = ''Sets'', r_description = [],
      r_fileName = ''sets.pdf'', r_storedFileName = filename, r_fileSize = ''1 KB'',
      r_uploadDate = ''1/1/2026'', r_subject = subject, r_type = ''pdf'',
      r_filePath = [], r_unit = unit\<rparr>"

definition exampleFile :: upFile where
  "exampleFile =
     \<lparr>f_originalname = ''sets.pdf'', f_filename = ''sets_1700000000123.pdf'',
      f_fileSize = ''1 KB'', f_fileType = ''pdf''\<rparr>"

definition exampleClock :: clock where
  "exampleClock =
     \<lparr>c_fileId = ''1700000000123'', c_subjectId = ''1700000000124'',
      c_uploadDate = ''1/1/2026'', c_now = ''2026-01-01T00:00:00.000Z''\<rparr>"

definition exampleUpload :: "string \<Rightarrow> string \<Rightarrow> string option \<Rightarrow> uploadReq" where
  "exampleUpload subject type unit =
     \<lparr>h_subject = Some subject, h_type = Some type, h_unit = unit,
      q_title = Some ''Sets'', q_subject = Some subject, q_type = Some type, q_unit = unit,
      q_description = None, q_file = Some exampleFile\<rparr>"


text \<open>A server that holds one note of subject Math, unit \<open>Unit 1\<close>, with its index
  entry and its record, and possibly other paths.\<close>

definition storedServer :: "string list \<Rightarrow> server" where
  "storedServer others =
     \<lparr>files = ''/srv/app/storage/Math/notes/Unit 1/f.pdf'' # others,
      metadataFile = Absent, backupFile = Absent,
      fileMetadata = [(''Math-notes-Unit 1-f.pdf'', entryOf (exampleRecord ''Math'' (Some ''Unit 1'') ''f.pdf''))],
      fullBackupData = emptyBackup\<lparr>b_notes := [exampleRecord ''Math'' (Some ''Unit 1'') ''f.pdf'']\<rparr>\<rparr>"

text \<open>The record a successful upload leaves in the list of its category: the fields of
  \<^verbatim>\<open>backupFileData\<close>, with the unit for notes.\<close>

definition uploadRecord :: "clock \<Rightarrow> uploadReq \<Rightarrow> upFile \<Rightarrow> string \<Rightarrow> fileRecord" where
  "uploadRecord c req f filePath =
     \<lparr>r_id = c_fileId c, r_title = trim (orEmpty (q_title req)),
      r_description = trim (orEmpty (q_description req)),
      r_fileName = f_originalname f, r_storedFileName = f_filename f,
      r_fileSize = f_fileSize f, r_uploadDate = c_uploadDate c,
      r_subject = trim (orEmpty (q_subject req)), r_type = f_fileType f, r_filePath = filePath,
      r_unit = (if trim (orEmpty (q_type req)) = ''notes''
                then Some (trim (orEmpty (q_unit req))) else None)\<rparr>"

text \<open>A second upload of the same stored file name, subject and unit under another
  title.\<close>

definition secondUpload :: uploadReq where
  "secondUpload = (exampleUpload ''Math'' ''notes'' (Some ''U1''))\<lparr>q_title := Some ''Sets, second edition''\<rparr>"

text \<open>The server after the first upload of the example note.\<close>

definition afterFirstUpload :: server where
  "afterFirstUpload =
     snd (upload (storageDirOf ''/srv/app'') exampleClock
            (exampleUpload ''Math'' ''notes'' (Some ''U1'')) (exampleServer []))"

text \<open>A server that starts with a backup document that holds one note and no
  subject, and without \<^verbatim>\<open>file-metadata.json\<close>.\<close>

definition restartServer :: server where
  "restartServer =
     (exampleServer [])
       \<lparr>backupFile := Doc (backupData ''2025-12-31T00:00:00.000Z''
           (emptyBackup\<lparr>b_notes := [exampleRecord ''Math'' (Some ''U1'') ''a.pdf'']\<rparr>))\<rparr>"

section \<open>The flat index during startup\<close>

lemma backfillOne_eq:
  "backfillOne key m r = (if mapHas m (key r) then m else m @ [(key r, entryOf r)])"
  by (simp add: backfillOne_def mapSet_def)

lemma mapHas_append: "mapHas (m @ n) k = (mapHas m k \<or> mapHas n k)"
  by (auto simp: mapHas_def map_add_def split: option.splits)

lemma foldl_backfillOne:
  "\<exists>new. foldl (backfillOne key) m rs = m @ new \<and> (\<forall>k\<in>set (map fst new). \<not> mapHas m k)"
proof (induction rs arbitrary: m)
  case Nil
  show ?case by simp
next
  case (Cons r rs)
  show ?case
  proof (cases "mapHas m (key r)")
    case True
    then have "backfillOne key m r = m" by (simp add: backfillOne_eq)
    then show ?thesis using Cons[of m] by simp
  next
    case False
    obtain new where n:
      "foldl (backfillOne key) (m @ [(key r, entryOf r)]) rs = (m @ [(key r, entryOf r)]) @ new"
      "\<forall>k\<in>set (map fst new). \<not> mapHas (m @ [(key r, entryOf r)]) k"
      using Cons[of "m @ [(key r, entryOf r)]"] by blast
    have "\<forall>k\<in>set (map fst ((key r, entryOf r) # new)). \<not> mapHas m k"
      using n(2) False by (auto simp: mapHas_append)
    moreover have "backfillOne key m r = m @ [(key r, entryOf r)]"
      using False by (simp add: backfillOne_eq)
    ultimately show ?thesis using n(1)
      by (intro exI[of _ "(key r, entryOf r) # new"]) simp
  qed
qed

lemma extends_trans:
  assumes "m1 = m @ n1" "\<forall>k\<in>set (map fst n1). \<not> mapHas m k"
    "m2 = m1 @ n2" "\<forall>k\<in>set (map fst n2). \<not> mapHas m1 k"
  shows "m2 = m @ (n1 @ n2) \<and> (\<forall>k\<in>set (map fst (n1 @ n2)). \<not> mapHas m k)"
  using assms by (auto simp: mapHas_append)

lemma backfill_extends:
  "\<exists>new. backfill m b = m @ new \<and> (\<forall>k\<in>set (map fst new). \<not> mapHas m k)"
proof -
  define m1 where "m1 = foldl (backfillOne notesKey) m (b_notes b)"
  define m2 where "m2 = foldl (backfillOne practiceTestsKey) m1 (b_practiceTests b)"
  define m3 where "m3 = foldl (backfillOne practicalsKey) m2 (b_practicals b)"
  define m4 where "m4 = foldl (backfillOne assignmentsKey) m3 (b_assignments b)"
  obtain n1 where 1: "m1 = m @ n1" "\<forall>k\<in>set (map fst n1). \<not> mapHas m k"
    unfolding m1_def using foldl_backfillOne by blast
  obtain n2 where 2: "m2 = m1 @ n2" "\<forall>k\<in>set (map fst n2). \<not> mapHas m1 k"
    unfolding m2_def using foldl_backfillOne by blast
  obtain n3 where 3: "m3 = m2 @ n3" "\<forall>k\<in>set (map fst n3). \<not> mapHas m2 k"
    unfolding m3_def using foldl_backfillOne by blast
  obtain n4 where 4: "m4 = m3 @ n4" "\<forall>k\<in>set (map fst n4). \<not> mapHas m3 k"
    unfolding m4_def using foldl_backfillOne by blast
  note a = extends_trans[OF 1 2]
  note b = extends_trans[OF conjunct1[OF a] conjunct2[OF a] 3]
  note c = extends_trans[OF conjunct1[OF b] conjunct2[OF b] 4]
  have "backfill m b = m4" by (simp add: backfill_def m1_def m2_def m3_def m4_def)
  then show ?thesis using c by blast
qed

lemma map_of_extends:
  "map_of m k = Some v \<Longrightarrow> map_of (m @ new) k = Some v"
  by (simp add: map_add_def split: option.splits)

lemma fileMetadata_startup:
  "fileMetadata (startup newId now s) = backfill (fst (loadMetadata s)) (snd (loadMetadata s))"
  by (simp add: startup_def Let_def saveMetadata_def split: prod.splits)

text \<open>
  C10. During startup the flat index in memory is the loaded index after the four
  loops. The loops only append entries, and only for keys the index did not
  have: the loaded entries stay where they are, and every key that had a value
  keeps that value. Nothing is overwritten or deleted.
\<close>

theorem backfill_keeps_entries:
  "fileMetadata (startup newId now s) = backfill (fst (loadMetadata s)) (snd (loadMetadata s)) \<and>
   (\<exists>new. backfill m b = m @ new \<and> (\<forall>k\<in>set (map fst new). \<not> mapHas m k)) \<and>
   (\<forall>k v. map_of m k = Some v \<longrightarrow> map_of (backfill m b) k = Some v)"
proof (intro conjI allI impI)
  show "fileMetadata (startup newId now s) = backfill (fst (loadMetadata s)) (snd (loadMetadata s))"
    by (rule fileMetadata_startup)
  show "\<exists>new. backfill m b = m @ new \<and> (\<forall>k\<in>set (map fst new). \<not> mapHas m k)"
    by (rule backfill_extends)
  fix k v
  assume "map_of m k = Some v"
  then show "map_of (backfill m b) k = Some v"
    using backfill_extends[of m b] map_of_extends by metis
qed

text \<open>An index that already has an entry for the key of a note, under another
  title: the entry is still there after the loops.\<close>

theorem backfill_keeps_entries_witness:
  "map_of [(''Math-notes-U1-a.pdf'',
            \<lparr>e_title = ''Old'', e_description = [], e_originalFileName = ''a.pdf''\<rparr>)]
     ''Math-notes-U1-a.pdf''
     = Some \<lparr>e_title = ''Old'', e_description = [], e_originalFileName = ''a.pdf''\<rparr> \<and>
   map_of (backfill [(''Math-notes-U1-a.pdf'',
            \<lparr>e_title = ''Old'', e_description = [], e_originalFileName = ''a.pdf''\<rparr>)]
        (emptyBackup\<lparr>b_notes := [exampleRecord ''Math'' (Some ''U1'') ''a.pdf'',
                                   exampleRecord ''Math'' (Some ''U2'') ''b.pdf'']\<rparr>))
     ''Math-notes-U1-a.pdf''
     = Some \<lparr>e_title = ''Old'', e_description = [], e_originalFileName = ''a.pdf''\<rparr>"
proof -
  let ?e = "\<lparr>e_title = ''Old'', e_description = [], e_originalFileName = ''a.pdf''\<rparr>"
  have h: "map_of [(''Math-notes-U1-a.pdf'', ?e)] ''Math-notes-U1-a.pdf'' = Some ?e"
    by simp
  show ?thesis
    using h backfill_keeps_entries[of undefined undefined undefined
        "[(''Math-notes-U1-a.pdf'', ?e)]"
        "emptyBackup\<lparr>b_notes := [exampleRecord ''Math'' (Some ''U1'') ''a.pdf'',
                                  exampleRecord ''Math'' (Some ''U2'') ''b.pdf'']\<rparr>"]
    by blast
qed


section \<open>Paths made of plain segments\<close>

lemma splitSep_nosep: "CHR ''/'' \<notin> set s \<Longrightarrow> splitSep s = [s]"
  by (induction s) auto

lemma splitSep_append: "CHR ''/'' \<notin> set s \<Longrightarrow> splitSep (s @ CHR ''/'' # t) = s # splitSep t"
  by (induction s) auto

lemma splitSep_seg_absPath:
  "CHR ''/'' \<notin> set x \<Longrightarrow> \<forall>s\<in>set xs. CHR ''/'' \<notin> set s \<Longrightarrow>
   splitSep (x @ absPath xs) = x # xs"
proof (induction xs arbitrary: x)
  case Nil
  then show ?case by (simp add: absPath_def splitSep_nosep)
next
  case (Cons y ys)
  have "splitSep (x @ absPath (y # ys)) = x # splitSep (y @ absPath ys)"
    using Cons.prems(1) by (simp add: absPath_def splitSep_append)
  then show ?case using Cons by simp
qed

lemma splitSep_absPath:
  assumes "xs \<noteq> []" "\<forall>s\<in>set xs. CHR ''/'' \<notin> set s"
  shows "splitSep (absPath xs) = [] # xs"
proof -
  obtain y ys where xs: "xs = y # ys" using assms(1) by (cases xs) auto
  have "absPath xs = CHR ''/'' # (y @ absPath ys)" by (simp add: xs absPath_def)
  then show ?thesis using assms(2) xs splitSep_seg_absPath[of y ys] by simp
qed

lemma normalizeSegs_plain:
  "\<forall>s\<in>set xs. plain s \<Longrightarrow> normalizeSegs a res xs = res @ xs"
  by (induction xs arbitrary: res) (auto simp: plain_def)

lemma joinSep_absPath: "xs \<noteq> [] \<Longrightarrow> CHR ''/'' # joinSep xs = absPath xs"
  by (induction xs rule: joinSep.induct) (auto simp: absPath_def)

lemma joinSep_cons_absPath: "joinSep (a # xs) = a @ absPath xs"
  by (induction xs arbitrary: a) (auto simp: absPath_def)

lemma absPath_append: "absPath (xs @ ys) = absPath xs @ absPath ys"
  by (simp add: absPath_def)

lemma last_absPath: "xs \<noteq> [] \<Longrightarrow> last xs \<noteq> [] \<Longrightarrow> last (absPath xs) = last (last xs)"
  by (induction xs) (auto simp: absPath_def)

lemma normalize_absPath:
  assumes "xs \<noteq> []" "\<forall>s\<in>set xs. plain s"
  shows "posix_normalize (absPath xs) = absPath xs"
proof -
  obtain y ys where xs: "xs = y # ys" using assms(1) by (cases xs) auto
  have ne: "absPath xs \<noteq> []" and hd: "hd (absPath xs) = CHR ''/''"
    by (simp_all add: xs absPath_def)
  have lp: "plain (last xs)" using assms by simp
  then have "last (absPath xs) = last (last xs)" using last_absPath assms(1) by (simp add: plain_def)
  moreover have "last (last xs) \<in> set (last xs)" using lp by (simp add: plain_def)
  ultimately have tr: "last (absPath xs) \<noteq> CHR ''/''" using lp unfolding plain_def by metis
  have nosep: "\<forall>s\<in>set xs. CHR ''/'' \<notin> set s" using assms(2) by (simp add: plain_def)
  have seg: "normalizeSegs False [] (splitSep (absPath xs)) = xs"
    using splitSep_absPath[OF assms(1) nosep] normalizeSegs_plain[OF assms(2), of False "[]"] by simp
  have jne: "joinSep xs \<noteq> []" using joinSep_cons_absPath[of y ys] lp xs
    by (cases ys) (auto simp: plain_def absPath_def)
  show ?thesis
    unfolding posix_normalize_def Let_def using ne hd tr seg jne joinSep_absPath[OF assms(1)] by simp
qed

lemma path_join_plain:
  assumes "ds \<noteq> []" "\<forall>s\<in>set ds. plain s" "\<forall>s\<in>set segs. plain s"
  shows "path_join (absPath ds # segs) = absPath (ds @ segs)"
proof -
  have ne: "absPath ds \<noteq> []" using assms(1) by (cases ds) (simp_all add: absPath_def)
  have f: "filter (\<lambda>a. a \<noteq> []) (absPath ds # segs) = absPath ds # segs"
    using ne assms(3) by (auto simp: plain_def filter_id_conv)
  have "posix_normalize (absPath (ds @ segs)) = absPath (ds @ segs)"
    using normalize_absPath[of "ds @ segs"] assms by auto
  then show ?thesis
    unfolding path_join_def Let_def f by (simp add: joinSep_cons_absPath absPath_append)
qed

lemma plain_category [simp]:
  "plain ''storage''" "plain ''notes''" "plain ''practice-tests''" "plain ''practicals''"
  "plain ''assignments''" "plain ''temp''"
  by (simp_all add: plain_def)

lemma storageDirOf_abs:
  assumes "ds \<noteq> []" "\<forall>s\<in>set ds. plain s"
  shows "storageDirOf (absPath ds) = absPath (ds @ [''storage''])"
  unfolding storageDirOf_def using path_join_plain[OF assms, of "[''storage'']"] by simp

lemma join_storage:
  assumes "ds \<noteq> []" "\<forall>s\<in>set ds. plain s" "\<forall>s\<in>set segs. plain s"
  shows "path_join (storageDirOf (absPath ds) # segs) = absPath (ds @ ''storage'' # segs)"
proof -
  have "path_join (absPath (ds @ [''storage'']) # segs) = absPath ((ds @ [''storage'']) @ segs)"
    by (rule path_join_plain) (use assms in auto)
  then show ?thesis using storageDirOf_abs[OF assms(1,2)] by simp
qed

lemma resolve_notes:
  assumes "ds \<noteq> []" "\<forall>s\<in>set ds. plain s" "plain subject" "plain unit" "plain filename"
  shows "resolveFilePath (storageDirOf (absPath ds)) subject ''notes'' (Some unit) filename
         = absPath (ds @ [''storage'', subject, ''notes'', unit, filename])"
proof -
  have "unit \<noteq> []" using assms(4) by (simp add: plain_def)
  then show ?thesis
    using join_storage[OF assms(1,2), of "[subject, ''notes'', unit, filename]"] assms(3-5)
    by (simp add: resolveFilePath_def truthy_def orEmpty_def)
qed

lemma resolve_other:
  assumes "ds \<noteq> []" "\<forall>s\<in>set ds. plain s" "plain subject" "plain type" "plain filename"
    "type = ''notes'' \<longrightarrow> \<not> truthy unit"
  shows "resolveFilePath (storageDirOf (absPath ds)) subject type unit filename
         = absPath (ds @ [''storage'', subject, type, filename])"
  using join_storage[OF assms(1,2), of "[subject, type, filename]"] assms(3-6)
  by (auto simp add: resolveFilePath_def)

lemma destination_notes:
  assumes "ds \<noteq> []" "\<forall>s\<in>set ds. plain s" "plain (trim (orEmpty hs))" "trim (orEmpty ht) = ''notes''"
    "plain (trim (orEmpty hu))"
  shows "destination (storageDirOf (absPath ds)) hs ht hu
         = Inr (absPath (ds @ [''storage'', trim (orEmpty hs), ''notes'', trim (orEmpty hu)]))"
proof -
  have "trim (orEmpty hs) \<noteq> []" "trim (orEmpty hu) \<noteq> []" using assms(3,5) by (simp_all add: plain_def)
  then show ?thesis
    using join_storage[OF assms(1,2), of "[trim (orEmpty hs), ''notes'', trim (orEmpty hu)]"] assms(3-5)
    by (simp add: destination_def Let_def)
qed

lemma destination_other:
  assumes "ds \<noteq> []" "\<forall>s\<in>set ds. plain s" "plain (trim (orEmpty hs))"
    "trim (orEmpty ht) = type" "type \<in> {''practice-tests'', ''practicals'', ''assignments''}"
  shows "destination (storageDirOf (absPath ds)) hs ht hu
         = Inr (absPath (ds @ [''storage'', trim (orEmpty hs), type]))"
proof -
  have "trim (orEmpty hs) \<noteq> []" using assms(3) by (simp_all add: plain_def)
  moreover have "plain type" using assms(5) by auto
  ultimately show ?thesis
    using join_storage[OF assms(1,2), of "[trim (orEmpty hs), type]"] assms(3-5)
    by (auto simp add: destination_def Let_def)
qed

lemma join_filename:
  assumes "ds \<noteq> []" "\<forall>s\<in>set ds. plain s" "plain filename"
  shows "path_join [absPath ds, filename] = absPath (ds @ [filename])"
  using path_join_plain[OF assms(1,2), of "[filename]"] assms(3) by simp

lemma multerStore_path:
  assumes "destination sd (h_subject req) (h_type req) (h_unit req) = Inr (absPath xs)"
    "xs \<noteq> []" "\<forall>s\<in>set xs. plain s" "plain (f_filename f)"
  shows "map_sum id fst (multerStore sd req f s) = Inr (absPath (xs @ [f_filename f]))"
  using assms join_filename[OF assms(2,3,4)] by (simp add: multerStore_def Let_def)


section \<open>The canonical path\<close>

text \<open>
  C9. The server module lies in a directory with plain segments \<open>ds\<close>, and the
  subject, the unit and the stored file name are plain names (not empty, without a
  slash, neither \<^verbatim>\<open>.\<close> nor \<^verbatim>\<open>..\<close>). For notes with such a unit the
  path derived by the handlers that serve and delete a file is
  \<^verbatim>\<open>storage/{subject}/notes/{unit}/{filename}\<close> below that directory; for
  practice tests, practicals and assignments it is
  \<^verbatim>\<open>storage/{subject}/{category}/{filename}\<close> whatever unit is sent. Multer
  writes an uploaded file to the same two paths, from the trimmed headers.
\<close>

theorem canonical_path:
  assumes "ds \<noteq> []" "\<forall>d\<in>set ds. plain d" "plain subject" "plain filename"
  shows
   "(plain unit \<longrightarrow>
       resolveFilePath (storageDirOf (absPath ds)) subject ''notes'' (Some unit) filename
       = absPath (ds @ [''storage'', subject, ''notes'', unit, filename])) \<and>
    (type \<in> {''practice-tests'', ''practicals'', ''assignments''} \<longrightarrow>
       resolveFilePath (storageDirOf (absPath ds)) subject type anyUnit filename
       = absPath (ds @ [''storage'', subject, type, filename])) \<and>
    (trim (orEmpty (h_subject req)) = subject \<and> trim (orEmpty (h_type req)) = ''notes'' \<and>
     trim (orEmpty (h_unit req)) = unit \<and> plain unit \<and> f_filename f = filename \<longrightarrow>
       map_sum id fst (multerStore (storageDirOf (absPath ds)) req f s)
       = Inr (absPath (ds @ [''storage'', subject, ''notes'', unit, filename]))) \<and>
    (trim (orEmpty (h_subject req)) = subject \<and> trim (orEmpty (h_type req)) = type \<and>
     type \<in> {''practice-tests'', ''practicals'', ''assignments''} \<and> f_filename f = filename \<longrightarrow>
       map_sum id fst (multerStore (storageDirOf (absPath ds)) req f s)
       = Inr (absPath (ds @ [''storage'', subject, type, filename])))"
proof (intro conjI impI)
  assume "plain unit"
  then show "resolveFilePath (storageDirOf (absPath ds)) subject ''notes'' (Some unit) filename
       = absPath (ds @ [''storage'', subject, ''notes'', unit, filename])"
    using resolve_notes assms by simp
next
  assume t: "type \<in> {''practice-tests'', ''practicals'', ''assignments''}"
  then have "plain type" "type \<noteq> ''notes''" by auto
  then show "resolveFilePath (storageDirOf (absPath ds)) subject type anyUnit filename
       = absPath (ds @ [''storage'', subject, type, filename])"
    using resolve_other[OF assms(1,2,3) _ assms(4)] by simp
next
  assume a: "trim (orEmpty (h_subject req)) = subject \<and> trim (orEmpty (h_type req)) = ''notes'' \<and>
     trim (orEmpty (h_unit req)) = unit \<and> plain unit \<and> f_filename f = filename"
  have d: "destination (storageDirOf (absPath ds)) (h_subject req) (h_type req) (h_unit req)
        = Inr (absPath (ds @ [''storage'', subject, ''notes'', unit]))"
    using destination_notes[OF assms(1,2), of "h_subject req" "h_type req" "h_unit req"] a assms(3)
    by simp
  have "map_sum id fst (multerStore (storageDirOf (absPath ds)) req f s)
        = Inr (absPath ((ds @ [''storage'', subject, ''notes'', unit]) @ [f_filename f]))"
    by (rule multerStore_path[OF d]) (use assms a in auto)
  then show "map_sum id fst (multerStore (storageDirOf (absPath ds)) req f s)
       = Inr (absPath (ds @ [''storage'', subject, ''notes'', unit, filename]))"
    using a by simp
next
  assume a: "trim (orEmpty (h_subject req)) = subject \<and> trim (orEmpty (h_type req)) = type \<and>
     type \<in> {''practice-tests'', ''practicals'', ''assignments''} \<and> f_filename f = filename"
  then have pt: "plain type" by auto
  have d: "destination (storageDirOf (absPath ds)) (h_subject req) (h_type req) (h_unit req)
        = Inr (absPath (ds @ [''storage'', subject, type]))"
    using destination_other[OF assms(1,2), of "h_subject req" "h_type req" type "h_unit req"] a assms(3)
    by simp
  have "map_sum id fst (multerStore (storageDirOf (absPath ds)) req f s)
        = Inr (absPath ((ds @ [''storage'', subject, type]) @ [f_filename f]))"
    by (rule multerStore_path[OF d]) (use assms a pt in auto)
  then show "map_sum id fst (multerStore (storageDirOf (absPath ds)) req f s)
       = Inr (absPath (ds @ [''storage'', subject, type, filename]))"
    using a by simp
qed

text \<open>Some strings without white space at their ends.\<close>

lemma trim_examples [simp]: "trim ''Math'' = ''Math''" "trim ''notes'' = ''notes''" "trim ''Unit 1'' = ''Unit 1''"
  "trim ''practicals'' = ''practicals''"
  by (simp_all add: trim_def isWhitespace_def)

text \<open>A server in \<^verbatim>\<open>/srv/app\<close>, subject Math, unit \<open>Unit 1\<close>.\<close>

theorem canonical_path_witness:
  "resolveFilePath (storageDirOf ''/srv/app'') ''Math'' ''notes'' (Some ''Unit 1'') ''sets_1700000000123.pdf''
     = ''/srv/app/storage/Math/notes/Unit 1/sets_1700000000123.pdf'' \<and>
   resolveFilePath (storageDirOf ''/srv/app'') ''Math'' ''practicals'' (Some ''Unit 1'') ''sets_1700000000123.pdf''
     = ''/srv/app/storage/Math/practicals/sets_1700000000123.pdf'' \<and>
   map_sum id fst (multerStore (storageDirOf ''/srv/app'') (exampleUpload ''Math'' ''notes'' (Some ''Unit 1''))
       exampleFile (exampleServer []))
     = Inr ''/srv/app/storage/Math/notes/Unit 1/sets_1700000000123.pdf'' \<and>
   map_sum id fst (multerStore (storageDirOf ''/srv/app'') (exampleUpload ''Math'' ''practicals'' (Some ''Unit 1''))
       exampleFile (exampleServer []))
     = Inr ''/srv/app/storage/Math/practicals/sets_1700000000123.pdf''"
proof -
  have p: "[''srv'', ''app''] \<noteq> []" "\<forall>d\<in>set [''srv'', ''app'']. plain d" "plain ''Math''"
    "plain ''sets_1700000000123.pdf''" "plain ''Unit 1''"
    by (simp_all add: plain_def)
  have a: "absPath [''srv'', ''app''] = ''/srv/app''" by (simp add: absPath_def)
  note n = canonical_path[OF p(1-4), of "''Unit 1''" "''practicals''" "Some ''Unit 1''"
      "exampleUpload ''Math'' ''notes'' (Some ''Unit 1'')" exampleFile "exampleServer []"]
  note q = canonical_path[OF p(1-4), of "''Unit 1''" "''practicals''" "Some ''Unit 1''"
      "exampleUpload ''Math'' ''practicals'' (Some ''Unit 1'')" exampleFile "exampleServer []"]
  show ?thesis
    using n q p(5) by (simp add: a absPath_def exampleUpload_def exampleFile_def orEmpty_def)
qed


section \<open>Unknown categories and missing units\<close>

text \<open>Both handlers use the derived path when it exists.\<close>

lemma getFile_exists:
  "existsSync (files s) (resolveFilePath sd subject type unit filename) \<Longrightarrow>
   getFile sd subject type unit filename s = Inr (resolveFilePath sd subject type unit filename)"
  by (simp add: getFile_def Let_def)

lemma deleteFile_exists:
  "existsSync (files s) (resolveFilePath sd subject type unit filename) \<Longrightarrow>
   deleteFile sd now subject type unit filename s
   = Inr (deleteAt now subject type unit filename (resolveFilePath sd subject type unit filename) s)"
  by (simp add: deleteFile_def Let_def)

text \<open>
  C3, as the code has it. For a category other than notes, practice-tests, practicals
  and assignments, serving and deleting a file never fail because of the category: with
  or without a unit the derived path is \<^verbatim>\<open>storage/{subject}/{category}/{filename}\<close>,
  and a file that exists there is served or deleted. The destination callback of an
  upload whose headers name the subject and such a category fails with
  \<^verbatim>\<open>Invalid type: {category}\<close>, with or without a unit.
\<close>

theorem unknown_category:
  assumes "ds \<noteq> []" "\<forall>d\<in>set ds. plain d" "plain subject" "plain filename" "plain type"
    "type \<notin> set categories"
  shows
   "resolveFilePath (storageDirOf (absPath ds)) subject type unit filename
      = absPath (ds @ [''storage'', subject, type, filename]) \<and>
    (existsSync (files s) (absPath (ds @ [''storage'', subject, type, filename])) \<longrightarrow>
       getFile (storageDirOf (absPath ds)) subject type unit filename s
         = Inr (absPath (ds @ [''storage'', subject, type, filename])) \<and>
       deleteFile (storageDirOf (absPath ds)) now subject type unit filename s
         = Inr (deleteAt now subject type unit filename
                  (absPath (ds @ [''storage'', subject, type, filename])) s)) \<and>
    (trim (orEmpty hs) \<noteq> [] \<and> trim (orEmpty ht) = type \<longrightarrow>
       destination (storageDirOf (absPath ds)) hs ht hu = Inl (InvalidType type False))"
proof -
  have n: "type \<noteq> ''notes''" "type \<noteq> ''practice-tests''" "type \<noteq> ''practicals''"
    "type \<noteq> ''assignments''" "type \<noteq> []"
    using assms(5,6) by (auto simp: categories_def plain_def)
  have r: "resolveFilePath (storageDirOf (absPath ds)) subject type unit filename
      = absPath (ds @ [''storage'', subject, type, filename])"
    using resolve_other[OF assms(1,2,3,5,4)] n(1) by simp
  have d: "trim (orEmpty hs) \<noteq> [] \<and> trim (orEmpty ht) = type \<longrightarrow>
       destination (storageDirOf (absPath ds)) hs ht hu = Inl (InvalidType type False)"
    using n by (auto simp: destination_def Let_def)
  show ?thesis
    using r d getFile_exists[of s "storageDirOf (absPath ds)" subject type unit filename]
      deleteFile_exists[of s "storageDirOf (absPath ds)" subject type unit filename now]
    by simp
qed

text \<open>
  C3 as stated fails: without a unit a file of category \<^verbatim>\<open>misc\<close> is served
  instead of being refused, and with a unit the upload of such a file is refused
  instead of being stored under the generic path.
\<close>

theorem unknown_category_counterexample:
  "getFile (storageDirOf ''/srv/app'') ''Math'' ''misc'' None ''f.pdf''
     (exampleServer [''/srv/app/storage/Math/misc/f.pdf''])
     = Inr ''/srv/app/storage/Math/misc/f.pdf'' \<and>
   destination (storageDirOf ''/srv/app'') (Some ''Math'') (Some ''misc'') (Some ''U1'')
     = Inl (InvalidType ''misc'' False)"
  by code_simp

text \<open>The same category with a unit on the lookup and without one on the upload.\<close>

theorem unknown_category_witness:
  "getFile (storageDirOf ''/srv/app'') ''Math'' ''misc'' (Some ''U1'') ''f.pdf''
     (exampleServer [''/srv/app/storage/Math/misc/f.pdf''])
     = Inr ''/srv/app/storage/Math/misc/f.pdf'' \<and>
   destination (storageDirOf ''/srv/app'') (Some ''Math'') (Some ''misc'') None
     = Inl (InvalidType ''misc'' False)"
proof -
  have p: "[''srv'', ''app''] \<noteq> []" "\<forall>d\<in>set [''srv'', ''app'']. plain d" "plain ''Math''"
    "plain ''f.pdf''" "plain ''misc''" "''misc'' \<notin> set categories"
    by (simp_all add: plain_def categories_def)
  have t: "trim (orEmpty (Some ''Math'')) \<noteq> [] \<and> trim (orEmpty (Some ''misc'')) = ''misc''"
    by (simp add: trim_def orEmpty_def isWhitespace_def)
  have e: "existsSync (files (exampleServer [''/srv/app/storage/Math/misc/f.pdf'']))
             (absPath ([''srv'', ''app''] @ [''storage'', ''Math'', ''misc'', ''f.pdf'']))"
    by (simp add: existsSync_def exampleServer_def absPath_def)
  show ?thesis
    using t e unknown_category[OF p, of "Some ''U1''" "exampleServer [''/srv/app/storage/Math/misc/f.pdf'']"
        undefined "Some ''Math''" "Some ''misc''" None]
    by (simp add: absPath_def)
qed

text \<open>
  C4, as the code has it. For notes with an empty or missing unit an upload fails: the
  destination callback with \<^verbatim>\<open>Invalid type: notes (unit required for notes)\<close>
  when the headers name the subject and the type, the handler with
  \<^verbatim>\<open>Unit is required for notes\<close> when the body does, and the server is left
  as it was. Serving and deleting a file do not fail for the missing unit: the derived
  path is \<^verbatim>\<open>storage/{subject}/notes/{filename}\<close>, and a file that exists there
  is served or deleted.
\<close>

theorem notes_without_unit:
  assumes "ds \<noteq> []" "\<forall>d\<in>set ds. plain d" "plain subject" "plain filename" "\<not> truthy unit"
  shows
   "resolveFilePath (storageDirOf (absPath ds)) subject ''notes'' unit filename
      = absPath (ds @ [''storage'', subject, ''notes'', filename]) \<and>
    (existsSync (files s) (absPath (ds @ [''storage'', subject, ''notes'', filename])) \<longrightarrow>
       getFile (storageDirOf (absPath ds)) subject ''notes'' unit filename s
         = Inr (absPath (ds @ [''storage'', subject, ''notes'', filename])) \<and>
       deleteFile (storageDirOf (absPath ds)) now subject ''notes'' unit filename s
         = Inr (deleteAt now subject ''notes'' unit filename
                  (absPath (ds @ [''storage'', subject, ''notes'', filename])) s)) \<and>
    (trim (orEmpty hs) \<noteq> [] \<and> trim (orEmpty ht) = ''notes'' \<and> trim (orEmpty hu) = [] \<longrightarrow>
       destination (storageDirOf (absPath ds)) hs ht hu = Inl (InvalidType ''notes'' True)) \<and>
    (trim (orEmpty (q_title req)) \<noteq> [] \<and> trim (orEmpty (q_subject req)) \<noteq> [] \<and>
     q_type req = Some ''notes'' \<and> trim (orEmpty (q_unit req)) = [] \<longrightarrow>
       uploadHandler (storageDirOf (absPath ds)) c req f path s = (Some UnitRequired, s))"
proof -
  have r: "resolveFilePath (storageDirOf (absPath ds)) subject ''notes'' unit filename
      = absPath (ds @ [''storage'', subject, ''notes'', filename])"
    using resolve_other[OF assms(1,2,3) _ assms(4), of "''notes''" unit] assms(5) by simp
  have d: "trim (orEmpty hs) \<noteq> [] \<and> trim (orEmpty ht) = ''notes'' \<and> trim (orEmpty hu) = [] \<longrightarrow>
       destination (storageDirOf (absPath ds)) hs ht hu = Inl (InvalidType ''notes'' True)"
    by (auto simp: destination_def Let_def)
  have tne: "\<And>x. trim (orEmpty x) \<noteq> [] \<Longrightarrow> truthy x"
    by (auto simp: truthy_def orEmpty_def trim_def split: option.splits)
  have h: "trim (orEmpty (q_title req)) \<noteq> [] \<and> trim (orEmpty (q_subject req)) \<noteq> [] \<and>
     q_type req = Some ''notes'' \<and> trim (orEmpty (q_unit req)) = [] \<longrightarrow>
       uploadHandler (storageDirOf (absPath ds)) c req f path s = (Some UnitRequired, s)"
  proof
    assume a: "trim (orEmpty (q_title req)) \<noteq> [] \<and> trim (orEmpty (q_subject req)) \<noteq> [] \<and>
     q_type req = Some ''notes'' \<and> trim (orEmpty (q_unit req)) = []"
    have "truthy (q_title req)" "truthy (q_subject req)" using a tne by auto
    moreover have "truthy (q_type req)" "trim (orEmpty (q_type req)) \<noteq> []"
      using a by (simp_all add: truthy_def orEmpty_def trim_def isWhitespace_def)
    ultimately show "uploadHandler (storageDirOf (absPath ds)) c req f path s = (Some UnitRequired, s)"
      using a by (simp add: uploadHandler_def)
  qed
  show ?thesis
    using r d h getFile_exists[of s "storageDirOf (absPath ds)" subject "''notes''" unit filename]
      deleteFile_exists[of s "storageDirOf (absPath ds)" subject "''notes''" unit filename now]
    by simp
qed

text \<open>
  C4 as stated fails: a lookup for notes without a unit is answered with the file
  directly below the notes directory of the subject.
\<close>

theorem notes_without_unit_counterexample:
  "getFile (storageDirOf ''/srv/app'') ''Math'' ''notes'' None ''f.pdf''
     (exampleServer [''/srv/app/storage/Math/notes/f.pdf''])
     = Inr ''/srv/app/storage/Math/notes/f.pdf''"
  by code_simp

text \<open>A lookup with an empty unit, and an upload of notes without a unit.\<close>

theorem notes_without_unit_witness:
  "getFile (storageDirOf ''/srv/app'') ''Math'' ''notes'' (Some []) ''f.pdf''
     (exampleServer [''/srv/app/storage/Math/notes/f.pdf''])
     = Inr ''/srv/app/storage/Math/notes/f.pdf'' \<and>
   destination (storageDirOf ''/srv/app'') (Some ''Math'') (Some ''notes'') None
     = Inl (InvalidType ''notes'' True) \<and>
   uploadHandler (storageDirOf ''/srv/app'') exampleClock (exampleUpload ''Math'' ''notes'' None)
       exampleFile ''/srv/app/storage/temp/sets_1700000000123.pdf'' (exampleServer [])
     = (Some UnitRequired, exampleServer [])"
proof -
  have p: "[''srv'', ''app''] \<noteq> []" "\<forall>d\<in>set [''srv'', ''app'']. plain d" "plain ''Math''"
    "plain ''f.pdf''" "\<not> truthy (Some [])"
    by (simp_all add: plain_def truthy_def)
  have t: "trim (orEmpty (Some ''Math'')) \<noteq> [] \<and> trim (orEmpty (Some ''notes'')) = ''notes'' \<and>
           trim (orEmpty None) = []"
    by (simp add: trim_def orEmpty_def isWhitespace_def)
  have e: "existsSync (files (exampleServer [''/srv/app/storage/Math/notes/f.pdf'']))
             (absPath ([''srv'', ''app''] @ [''storage'', ''Math'', ''notes'', ''f.pdf'']))"
    by (simp add: existsSync_def exampleServer_def absPath_def)
  have q: "trim (orEmpty (q_title (exampleUpload ''Math'' ''notes'' None))) \<noteq> [] \<and>
     trim (orEmpty (q_subject (exampleUpload ''Math'' ''notes'' None))) \<noteq> [] \<and>
     q_type (exampleUpload ''Math'' ''notes'' None) = Some ''notes'' \<and>
     trim (orEmpty (q_unit (exampleUpload ''Math'' ''notes'' None))) = []"
    by (simp add: exampleUpload_def trim_def orEmpty_def isWhitespace_def)
  note a = notes_without_unit[OF p, of "exampleServer [''/srv/app/storage/Math/notes/f.pdf'']"
        undefined "Some ''Math''" "Some ''notes''" None undefined undefined undefined undefined]
  note b = notes_without_unit[OF p, of "exampleServer []"
        undefined "Some ''Math''" "Some ''notes''" None "exampleUpload ''Math'' ''notes'' None"
        exampleClock exampleFile "''/srv/app/storage/temp/sets_1700000000123.pdf''"]
  show ?thesis
    using t e q a b by (simp add: absPath_def)
qed

section \<open>Deleting a file\<close>

text \<open>\<^verbatim>\<open>for (const altPath of alternativePaths)\<close> with a \<^verbatim>\<open>break\<close> at
  the first path that exists.\<close>

lemma find_Some_holds: "find P xs = Some x \<Longrightarrow> P x \<and> x \<in> set xs"
  by (induction xs) (auto split: if_splits)

lemma find_None_none: "(find P xs = None) = (\<forall>x\<in>set xs. \<not> P x)"
  by (induction xs) auto

lemma getFile_find:
  "getFile sd subject type unit filename s =
     (case find (existsSync (files s))
             (resolveFilePath sd subject type unit filename
              # getAlternativePaths sd subject type unit filename) of
        None \<Rightarrow> Inl FileNotFound | Some p \<Rightarrow> Inr p)"
  by (simp add: getFile_def Let_def)

lemma getFile_NotFound_iff:
  "(getFile sd subject type unit filename s = Inl FileNotFound) =
   (\<forall>q\<in>set (resolveFilePath sd subject type unit filename
              # getAlternativePaths sd subject type unit filename). \<not> existsSync (files s) q)"
proof -
  have "(getFile sd subject type unit filename s = Inl FileNotFound) =
        (find (existsSync (files s))
           (resolveFilePath sd subject type unit filename
            # getAlternativePaths sd subject type unit filename) = None)"
    unfolding getFile_find by (simp split: option.splits)
  then show ?thesis unfolding find_None_none .
qed

lemma deleteFile_deletedPath:
  "deleteFile sd now subject type unit filename s =
     (case deletedPath sd subject type unit filename s of
        None \<Rightarrow> Inl FileNotFound
      | Some p \<Rightarrow> Inr (deleteAt now subject type unit filename p s))"
  by (simp add: deleteFile_def deletedPath_def Let_def)

lemma mapHas_mapDelete: "\<not> mapHas (mapDelete m k) k"
  by (induction m) (auto simp: mapHas_def mapDelete_def)

lemma listOf_removeRecords:
  "type \<in> set categories \<Longrightarrow>
   filter (sameIdentity type filename subject (orEmpty unit))
     (listOf type (removeRecords subject type unit filename b)) = []"
  by (auto simp: categories_def listOf_def removeRecords_def sameIdentity_def filter_empty_conv)

lemma existsSync_removeSync:
  "existsSync (removeSync fs p) q = (existsSync fs q \<and> \<not> under p q)"
  by (auto simp: existsSync_def removeSync_def)

lemma under_refl: "under p p"
  by (simp add: under_def)

text \<open>
  C8, as the code has it. A successful delete removes the index entry with the key
  \<^verbatim>\<open>{subject}-{category}-{unit}-{filename}\<close> and every record of that identity
  from the list of the category, writes both documents, and removes the one path it
  found (the derived path, or else the first alternative that exists). A lookup for
  the same subject, category, unit and file name afterwards fails with the 404 response
  exactly when every path of the lookup that existed before was at or below the removed
  path; another copy under one of the alternative paths of the lookup is still served.
\<close>

theorem delete_removes:
  assumes "deleteFile sd now subject type unit filename s = Inr s'"
  shows
   "\<not> mapHas (fileMetadata s') (subject @ ''-'' @ type @ ''-'' @ orEmpty unit @ ''-'' @ filename) \<and>
    (type \<in> set categories \<longrightarrow>
       filter (sameIdentity type filename subject (orEmpty unit))
         (listOf type (fullBackupData s')) = []) \<and>
    metadataFile s' = Doc (fileMetadata s') \<and>
    backupFile s' = Doc (backupData now (fullBackupData s')) \<and>
    (\<exists>p. deletedPath sd subject type unit filename s = Some p \<and> existsSync (files s) p \<and>
         files s' = removeSync (files s) p \<and> \<not> existsSync (files s') p \<and>
         ((getFile sd subject type unit filename s' = Inl FileNotFound) =
          (\<forall>q\<in>set (resolveFilePath sd subject type unit filename
                      # getAlternativePaths sd subject type unit filename).
              existsSync (files s) q \<longrightarrow> under p q)))"
proof -
  obtain p where p: "deletedPath sd subject type unit filename s = Some p"
    and s': "s' = deleteAt now subject type unit filename p s"
    using assms unfolding deleteFile_deletedPath by (auto split: option.splits)
  have ex: "existsSync (files s) p"
    using find_Some_holds[OF p[unfolded deletedPath_def]] by simp
  have f: "files s' = removeSync (files s) p"
    by (simp add: s' deleteAt_def saveMetadata_def Let_def)
  have m: "fileMetadata s' = mapDelete (fileMetadata s)
             (subject @ ''-'' @ type @ ''-'' @ orEmpty unit @ ''-'' @ filename)"
    by (simp add: s' deleteAt_def saveMetadata_def Let_def)
  have b: "fullBackupData s' = removeRecords subject type unit filename (fullBackupData s)"
    by (simp add: s' deleteAt_def saveMetadata_def Let_def)
  have d: "metadataFile s' = Doc (fileMetadata s')"
    "backupFile s' = Doc (backupData now (fullBackupData s'))"
    by (simp_all add: s' deleteAt_def saveMetadata_def Let_def)
  have g: "(getFile sd subject type unit filename s' = Inl FileNotFound) =
          (\<forall>q\<in>set (resolveFilePath sd subject type unit filename
                      # getAlternativePaths sd subject type unit filename).
              existsSync (files s) q \<longrightarrow> under p q)"
    unfolding getFile_NotFound_iff f existsSync_removeSync by blast
  have ne: "\<not> existsSync (files s') p"
    unfolding f existsSync_removeSync by (simp add: under_refl)
  show ?thesis
    using p ex f ne g d mapHas_mapDelete listOf_removeRecords
    unfolding m b by simp
qed

text \<open>
  C8 as stated fails: with the same file name in the directories \<open>Unit 1\<close> and
  \<open>Unit_1\<close>, the delete removes the first and the lookup that follows is answered
  with the second.
\<close>

theorem delete_removes_counterexample:
  "(case deleteFile (storageDirOf ''/srv/app'') ''2026-01-01T00:00:00.000Z''
           ''Math'' ''notes'' (Some ''Unit 1'') ''f.pdf''
           (storedServer [''/srv/app/storage/Math/notes/Unit_1/f.pdf'']) of
      Inl e \<Rightarrow> Inl e
    | Inr s' \<Rightarrow> getFile (storageDirOf ''/srv/app'') ''Math'' ''notes'' (Some ''Unit 1'') ''f.pdf'' s')
   = Inr ''/srv/app/storage/Math/notes/Unit_1/f.pdf''"
  by code_simp


text \<open>The same delete when the file exists in \<open>Unit 1\<close> only.\<close>

theorem delete_removes_witness:
  "deleteFile (storageDirOf ''/srv/app'') ''2026-01-01T00:00:00.000Z''
      ''Math'' ''notes'' (Some ''Unit 1'') ''f.pdf'' (storedServer [])
     = Inr (deleteAt ''2026-01-01T00:00:00.000Z'' ''Math'' ''notes'' (Some ''Unit 1'') ''f.pdf''
              ''/srv/app/storage/Math/notes/Unit 1/f.pdf'' (storedServer [])) \<and>
   mapHas (fileMetadata (storedServer [])) ''Math-notes-Unit 1-f.pdf'' \<and>
   \<not> mapHas (fileMetadata (deleteAt ''2026-01-01T00:00:00.000Z'' ''Math'' ''notes'' (Some ''Unit 1'')
        ''f.pdf'' ''/srv/app/storage/Math/notes/Unit 1/f.pdf'' (storedServer [])))
       ''Math-notes-Unit 1-f.pdf'' \<and>
   filter (sameIdentity ''notes'' ''f.pdf'' ''Math'' ''Unit 1'')
     (listOf ''notes'' (fullBackupData (storedServer [])))
     = [exampleRecord ''Math'' (Some ''Unit 1'') ''f.pdf''] \<and>
   filter (sameIdentity ''notes'' ''f.pdf'' ''Math'' ''Unit 1'')
     (listOf ''notes'' (fullBackupData (deleteAt ''2026-01-01T00:00:00.000Z'' ''Math'' ''notes''
        (Some ''Unit 1'') ''f.pdf'' ''/srv/app/storage/Math/notes/Unit 1/f.pdf'' (storedServer []))))
     = [] \<and>
   getFile (storageDirOf ''/srv/app'') ''Math'' ''notes'' (Some ''Unit 1'') ''f.pdf''
     (deleteAt ''2026-01-01T00:00:00.000Z'' ''Math'' ''notes'' (Some ''Unit 1'') ''f.pdf''
        ''/srv/app/storage/Math/notes/Unit 1/f.pdf'' (storedServer []))
     = Inl FileNotFound"
proof -
  let ?sd = "storageDirOf ''/srv/app''"
  let ?now = "''2026-01-01T00:00:00.000Z''"
  let ?p = "''/srv/app/storage/Math/notes/Unit 1/f.pdf''"
  let ?s' = "deleteAt ?now ''Math'' ''notes'' (Some ''Unit 1'') ''f.pdf'' ?p (storedServer [])"
  have h: "deleteFile ?sd ?now ''Math'' ''notes'' (Some ''Unit 1'') ''f.pdf'' (storedServer []) = Inr ?s'"
    by code_simp
  have c: "''notes'' \<in> set categories" by (simp add: categories_def)
  have dp: "deletedPath ?sd ''Math'' ''notes'' (Some ''Unit 1'') ''f.pdf'' (storedServer []) = Some ?p"
    by code_simp
  have before: "mapHas (fileMetadata (storedServer [])) ''Math-notes-Unit 1-f.pdf''"
    "filter (sameIdentity ''notes'' ''f.pdf'' ''Math'' ''Unit 1'')
       (listOf ''notes'' (fullBackupData (storedServer [])))
     = [exampleRecord ''Math'' (Some ''Unit 1'') ''f.pdf'']"
    by code_simp+
  have only: "\<forall>q\<in>set (resolveFilePath ?sd ''Math'' ''notes'' (Some ''Unit 1'') ''f.pdf''
                  # getAlternativePaths ?sd ''Math'' ''notes'' (Some ''Unit 1'') ''f.pdf'').
               existsSync (files (storedServer [])) q \<longrightarrow> under ?p q"
    by (simp add: storedServer_def existsSync_def under_def)
  note t = delete_removes[OF h]
  have 1: "\<not> mapHas (fileMetadata ?s') ''Math-notes-Unit 1-f.pdf''"
    using t by (simp add: orEmpty_def)
  have 2: "filter (sameIdentity ''notes'' ''f.pdf'' ''Math'' ''Unit 1'')
       (listOf ''notes'' (fullBackupData ?s')) = []"
    using t c by (simp add: orEmpty_def)
  have 3: "getFile ?sd ''Math'' ''notes'' (Some ''Unit 1'') ''f.pdf'' ?s' = Inl FileNotFound"
    using t dp only by auto
  show ?thesis using h before 1 2 3 by simp
qed

section \<open>The fallback search\<close>

text \<open>The alternatives of the lookup, by category.\<close>

lemma getAlternativePaths_cases:
  "getAlternativePaths sd subject type unit filename =
     (if type = ''notes'' \<and> truthy unit then
        [path_join [sd, subject, ''notes'', replaceWs ''_'' (orEmpty unit), filename],
         path_join [sd, subject, ''notes'', replaceWs ''-'' (orEmpty unit), filename],
         path_join [sd, subject, ''notes'', toLowerCase (orEmpty unit), filename],
         path_join [sd, replaceWs ''_'' subject, ''notes'', filename],
         path_join [sd, replaceWs ''-'' subject, ''notes'', filename]]
      else if type \<in> {''practice-tests'', ''practicals'', ''assignments''} then
        [path_join [sd, replaceWs ''_'' subject, type, filename],
         path_join [sd, replaceWs ''-'' subject, type, filename],
         path_join [sd, toLowerCase subject, type, filename]]
      else
        [path_join [sd, replaceWs ''_'' subject, type, filename],
         path_join [sd, replaceWs ''-'' subject, type, filename]])"
proof -
  consider (n) "type = ''notes''" "truthy unit" | (m) "type = ''notes''" "\<not> truthy unit"
    | (t) "type = ''practice-tests''" | (p) "type = ''practicals''" | (a) "type = ''assignments''"
    | (o) "type \<noteq> ''notes''" "type \<noteq> ''practice-tests''" "type \<noteq> ''practicals''"
          "type \<noteq> ''assignments''"
    by blast
  then show ?thesis
  proof cases
    case n then show ?thesis by (simp add: getAlternativePaths_def)
  next
    case m then show ?thesis by (simp add: getAlternativePaths_def)
  next
    case t then show ?thesis by (simp add: getAlternativePaths_def)
  next
    case p then show ?thesis by (simp add: getAlternativePaths_def)
  next
    case a then show ?thesis by (simp add: getAlternativePaths_def)
  next
    case o then show ?thesis by (simp add: getAlternativePaths_def)
  qed
qed

text \<open>
  C5, as the code has it. When the derived path does not exist, a lookup tries its
  alternatives in order, serves the first that exists and answers 404 when none does.
  For notes with a unit the alternatives are the unit with every run of white space
  replaced by an underscore, by a hyphen, the unit lower-cased, and then the file
  directly below the notes directory of the subject with every run of white space
  replaced by an underscore, by a hyphen. For practice tests, practicals and
  assignments they are the subject with runs of white space replaced by an underscore,
  by a hyphen, and the subject lower-cased. For any other category, and for notes
  without a unit, they are the first two of these. A delete whose derived path does not
  exist tries the same unit alternatives for notes with a unit and then the subject with
  runs of white space replaced by an underscore, by a hyphen, for every category: the
  first of these that exists is removed, and its 404 answer implies that none of them
  exists.
\<close>

theorem fallback_order:
  assumes "\<not> existsSync (files s) (resolveFilePath sd subject type unit filename)"
  shows
   "getFile sd subject type unit filename s =
      (case find (existsSync (files s))
         (if type = ''notes'' \<and> truthy unit then
            [path_join [sd, subject, ''notes'', replaceWs ''_'' (orEmpty unit), filename],
             path_join [sd, subject, ''notes'', replaceWs ''-'' (orEmpty unit), filename],
             path_join [sd, subject, ''notes'', toLowerCase (orEmpty unit), filename],
             path_join [sd, replaceWs ''_'' subject, ''notes'', filename],
             path_join [sd, replaceWs ''-'' subject, ''notes'', filename]]
          else if type \<in> {''practice-tests'', ''practicals'', ''assignments''} then
            [path_join [sd, replaceWs ''_'' subject, type, filename],
             path_join [sd, replaceWs ''-'' subject, type, filename],
             path_join [sd, toLowerCase subject, type, filename]]
          else
            [path_join [sd, replaceWs ''_'' subject, type, filename],
             path_join [sd, replaceWs ''-'' subject, type, filename]]) of
         Some p \<Rightarrow> Inr p
       | None \<Rightarrow> Inl FileNotFound) \<and>
    (let qs =
        (if type = ''notes'' \<and> truthy unit then
           [path_join [sd, subject, ''notes'', replaceWs ''_'' (orEmpty unit), filename],
            path_join [sd, subject, ''notes'', replaceWs ''-'' (orEmpty unit), filename],
            path_join [sd, subject, ''notes'', toLowerCase (orEmpty unit), filename]]
         else [])
        @ [path_join [sd, replaceWs ''_'' subject, type, filename],
           path_join [sd, replaceWs ''-'' subject, type, filename]]
     in (\<forall>p. find (existsSync (files s)) qs = Some p \<longrightarrow>
           deleteFile sd now subject type unit filename s
           = Inr (deleteAt now subject type unit filename p s)) \<and>
        (deleteFile sd now subject type unit filename s = Inl FileNotFound \<longrightarrow>
           (\<forall>q\<in>set qs. \<not> existsSync (files s) q)))"
proof -
  have g: "getFile sd subject type unit filename s =
      (case find (existsSync (files s)) (getAlternativePaths sd subject type unit filename) of
         Some p \<Rightarrow> Inr p | None \<Rightarrow> Inl FileNotFound)"
    using assms by (simp add: getFile_def Let_def split: option.splits)
  have d: "deleteFile sd now subject type unit filename s =
      (case find (existsSync (files s)) (deleteAlternativePaths sd subject type unit filename) of
         Some p \<Rightarrow> Inr (deleteAt now subject type unit filename p s) | None \<Rightarrow> Inl FileNotFound)"
    using assms by (simp add: deleteFile_def Let_def split: option.splits)
  have dn: "deleteFile sd now subject type unit filename s = Inl FileNotFound \<longrightarrow>
      (\<forall>q\<in>set (deleteAlternativePaths sd subject type unit filename). \<not> existsSync (files s) q)"
    unfolding d by (auto simp: find_None_none split: option.splits)
  have ds: "\<forall>p. find (existsSync (files s)) (deleteAlternativePaths sd subject type unit filename) = Some p \<longrightarrow>
           deleteFile sd now subject type unit filename s
           = Inr (deleteAt now subject type unit filename p s)"
    unfolding d by simp
  show ?thesis
    unfolding Let_def
    by (intro conjI) (rule g[unfolded getAlternativePaths_cases],
        rule ds[unfolded deleteAlternativePaths_def], rule dn[unfolded deleteAlternativePaths_def])
qed

text \<open>
  C5 as stated fails: for notes the claim ends the search after the three unit
  alternatives, the lookup goes on to the subject alternatives and serves a file it
  finds there.
\<close>

theorem fallback_order_counterexample:
  "getFile (storageDirOf ''/srv/app'') ''My Math'' ''notes'' (Some ''Unit 1'') ''f.pdf''
     (exampleServer [''/srv/app/storage/My_Math/notes/f.pdf''])
   = Inr ''/srv/app/storage/My_Math/notes/f.pdf''"
  by code_simp

text \<open>A lookup served from the directory of the lower-cased subject, and a delete that
  removes the file from the directory of the lower-cased unit.\<close>

theorem fallback_order_witness:
  "getFile (storageDirOf ''/srv/app'') ''Math'' ''practicals'' None ''g.pdf''
     (exampleServer [''/srv/app/storage/math/practicals/g.pdf''])
   = Inr ''/srv/app/storage/math/practicals/g.pdf'' \<and>
   deleteFile (storageDirOf ''/srv/app'') ''2026-01-01T00:00:00.000Z'' ''Math'' ''notes''
     (Some ''Unit 1'') ''f.pdf'' (exampleServer [''/srv/app/storage/Math/notes/unit 1/f.pdf''])
   = Inr (deleteAt ''2026-01-01T00:00:00.000Z'' ''Math'' ''notes'' (Some ''Unit 1'') ''f.pdf''
            ''/srv/app/storage/Math/notes/unit 1/f.pdf''
            (exampleServer [''/srv/app/storage/Math/notes/unit 1/f.pdf'']))"
proof -
  let ?sd = "storageDirOf ''/srv/app''"
  let ?s = "exampleServer [''/srv/app/storage/math/practicals/g.pdf'']"
  let ?t = "exampleServer [''/srv/app/storage/Math/notes/unit 1/f.pdf'']"
  have h: "\<not> existsSync (files ?s) (resolveFilePath ?sd ''Math'' ''practicals'' None ''g.pdf'')"
    by code_simp
  have k: "\<not> existsSync (files ?t) (resolveFilePath ?sd ''Math'' ''notes'' (Some ''Unit 1'') ''f.pdf'')"
    by code_simp
  have "getFile ?sd ''Math'' ''practicals'' None ''g.pdf'' ?s = Inr ''/srv/app/storage/math/practicals/g.pdf''"
    (is "?l = _")
  proof -
    from fallback_order[OF h, THEN conjunct1] have "?l = (case find (existsSync (files ?s))
         (if ''practicals'' = ''notes'' \<and> truthy None then
            [path_join [?sd, ''Math'', ''notes'', replaceWs ''_'' (orEmpty None), ''g.pdf''],
             path_join [?sd, ''Math'', ''notes'', replaceWs ''-'' (orEmpty None), ''g.pdf''],
             path_join [?sd, ''Math'', ''notes'', toLowerCase (orEmpty None), ''g.pdf''],
             path_join [?sd, replaceWs ''_'' ''Math'', ''notes'', ''g.pdf''],
             path_join [?sd, replaceWs ''-'' ''Math'', ''notes'', ''g.pdf'']]
          else if ''practicals'' \<in> {''practice-tests'', ''practicals'', ''assignments''} then
            [path_join [?sd, replaceWs ''_'' ''Math'', ''practicals'', ''g.pdf''],
             path_join [?sd, replaceWs ''-'' ''Math'', ''practicals'', ''g.pdf''],
             path_join [?sd, toLowerCase ''Math'', ''practicals'', ''g.pdf'']]
          else
            [path_join [?sd, replaceWs ''_'' ''Math'', ''practicals'', ''g.pdf''],
             path_join [?sd, replaceWs ''-'' ''Math'', ''practicals'', ''g.pdf'']]) of
         Some p \<Rightarrow> Inr p
       | None \<Rightarrow> Inl FileNotFound)" .
    also have "\<dots> = Inr ''/srv/app/storage/math/practicals/g.pdf''" by code_simp
    finally show ?thesis .
  qed
  moreover have "deleteFile ?sd ''2026-01-01T00:00:00.000Z'' ''Math'' ''notes''
     (Some ''Unit 1'') ''f.pdf'' ?t
   = Inr (deleteAt ''2026-01-01T00:00:00.000Z'' ''Math'' ''notes'' (Some ''Unit 1'') ''f.pdf''
            ''/srv/app/storage/Math/notes/unit 1/f.pdf'' ?t)"
  proof -
    have f: "find (existsSync (files ?t))
       ((if ''notes'' = ''notes'' \<and> truthy (Some ''Unit 1'') then
           [path_join [?sd, ''Math'', ''notes'', replaceWs ''_'' (orEmpty (Some ''Unit 1'')), ''f.pdf''],
            path_join [?sd, ''Math'', ''notes'', replaceWs ''-'' (orEmpty (Some ''Unit 1'')), ''f.pdf''],
            path_join [?sd, ''Math'', ''notes'', toLowerCase (orEmpty (Some ''Unit 1'')), ''f.pdf'']]
         else [])
        @ [path_join [?sd, replaceWs ''_'' ''Math'', ''notes'', ''f.pdf''],
           path_join [?sd, replaceWs ''-'' ''Math'', ''notes'', ''f.pdf'']])
       = Some ''/srv/app/storage/Math/notes/unit 1/f.pdf''"
      by code_simp
    show ?thesis
      using fallback_order[OF k, THEN conjunct2, unfolded Let_def, THEN conjunct1, rule_format, OF f] .
  qed
  ultimately show ?thesis by simp
qed

text \<open>The handlers differ for the three categories without units: the lookup tries
  the lower-cased subject, the delete does not.\<close>

lemma delete_skips_lowercase_subject:
  "getFile (storageDirOf ''/srv/app'') ''Math'' ''practicals'' None ''g.pdf''
     (exampleServer [''/srv/app/storage/math/practicals/g.pdf''])
   = Inr ''/srv/app/storage/math/practicals/g.pdf'' \<and>
   deleteFile (storageDirOf ''/srv/app'') ''2026-01-01T00:00:00.000Z'' ''Math'' ''practicals'' None
     ''g.pdf'' (exampleServer [''/srv/app/storage/math/practicals/g.pdf''])
   = Inl FileNotFound"
  by code_simp

section \<open>Reconstruction of the subjects\<close>

text \<open>Adding the elements of a list to an empty \<^verbatim>\<open>Set\<close> keeps the first
  occurrences in order.\<close>

lemma firstSeen_Nil [simp]: "firstSeen [] = []"
  by (simp add: firstSeen_def)

lemma firstSeen_snoc:
  "firstSeen (xs @ [x]) = (if x \<in> set xs then firstSeen xs else firstSeen xs @ [x])"
  by (simp add: firstSeen_def)

lemma set_firstSeen [simp]: "set (firstSeen xs) = set xs"
  by (simp add: firstSeen_def)

lemma distinct_firstSeen [simp]: "distinct (firstSeen xs)"
  by (simp add: firstSeen_def)

lemma foldl_setAdd: "foldl setAdd [] xs = firstSeen xs"
  by (induction xs rule: rev_induct) (simp_all add: firstSeen_snoc setAdd_def)

lemma addSubjects_foldl:
  "addSubjects acc rs = foldl setAdd acc (filter (\<lambda>n. n \<noteq> []) (map r_subject rs))"
  unfolding addSubjects_def by (induction rs arbitrary: acc) simp_all

lemma allSubjects_firstSeen:
  "allSubjects b =
     firstSeen (filter (\<lambda>n. n \<noteq> [])
       (map r_subject (b_notes b @ b_practiceTests b @ b_practicals b @ b_assignments b)))"
  unfolding allSubjects_def addSubjects_foldl
  by (simp add: foldl_setAdd[symmetric])

lemma unitsOf_firstSeen:
  "unitsOf b subject =
     firstSeen (map (\<lambda>n. orEmpty (r_unit n))
       (filter (\<lambda>n. r_subject n = subject \<and> truthy (r_unit n)) (b_notes b)))"
  unfolding unitsOf_def foldl_setAdd[symmetric] by (simp add: foldl_map)

lemma names_reconstructSubjects:
  "map s_name (reconstructSubjects newId b) = allSubjects b"
proof -
  have "map s_name (reconstructSubjects newId b) = map snd (enumerate 0 (allSubjects b))"
    unfolding reconstructSubjects_def by (simp add: case_prod_unfold comp_def)
  then show ?thesis by simp
qed

lemma units_reconstructSubjects:
  "e \<in> set (reconstructSubjects newId b) \<Longrightarrow> s_units e = unitsOf b (s_name e)"
  unfolding reconstructSubjects_def by auto

text \<open>
  C7. When the subject list of the backup is empty, reconstruction pushes one subject
  for each distinct subject name of the records, in the order in which the names are
  first seen in the notes, the practice tests, the practicals and the assignments. The
  units of a subject are the distinct unit names of the notes of that subject in the
  order in which they are first seen. An empty subject string names no subject and an
  empty or missing unit names no unit: the loops skip them.
\<close>

theorem reconstruct_subjects:
  assumes "b_subjects b = []"
  shows
   "map s_name (b_subjects (reconstruct newId b)) =
      firstSeen (filter (\<lambda>n. n \<noteq> [])
        (map r_subject (b_notes b @ b_practiceTests b @ b_practicals b @ b_assignments b))) \<and>
    distinct (map s_name (b_subjects (reconstruct newId b))) \<and>
    (\<forall>e\<in>set (b_subjects (reconstruct newId b)).
       s_units e =
         firstSeen (map (\<lambda>n. orEmpty (r_unit n))
           (filter (\<lambda>n. r_subject n = s_name e \<and> truthy (r_unit n)) (b_notes b))) \<and>
       distinct (s_units e))"
proof -
  have r: "b_subjects (reconstruct newId b) = reconstructSubjects newId b"
    using assms by (simp add: reconstruct_def)
  have n: "map s_name (b_subjects (reconstruct newId b)) =
      firstSeen (filter (\<lambda>n. n \<noteq> [])
        (map r_subject (b_notes b @ b_practiceTests b @ b_practicals b @ b_assignments b)))"
    unfolding r names_reconstructSubjects allSubjects_firstSeen ..
  have d: "distinct (map s_name (b_subjects (reconstruct newId b)))"
    unfolding n by simp
  have u: "\<forall>e\<in>set (b_subjects (reconstruct newId b)).
       s_units e =
         firstSeen (map (\<lambda>n. orEmpty (r_unit n))
           (filter (\<lambda>n. r_subject n = s_name e \<and> truthy (r_unit n)) (b_notes b))) \<and>
       distinct (s_units e)"
    unfolding r using units_reconstructSubjects[of _ newId b] by (simp add: unitsOf_firstSeen)
  show ?thesis using n d u by blast
qed

text \<open>Two notes of subject Math, of the units U1 and U2.\<close>

theorem reconstruct_subjects_witness:
  "map s_name (b_subjects (reconstruct (\<lambda>i. ''id'')
       (emptyBackup\<lparr>b_notes := [exampleRecord ''Math'' (Some ''U1'') ''a.pdf'',
                                 exampleRecord ''Math'' (Some ''U2'') ''b.pdf'']\<rparr>)))
     = [''Math''] \<and>
   map s_units (b_subjects (reconstruct (\<lambda>i. ''id'')
       (emptyBackup\<lparr>b_notes := [exampleRecord ''Math'' (Some ''U1'') ''a.pdf'',
                                 exampleRecord ''Math'' (Some ''U2'') ''b.pdf'']\<rparr>)))
     = [[''U1'', ''U2'']]"
proof -
  let ?b = "emptyBackup\<lparr>b_notes := [exampleRecord ''Math'' (Some ''U1'') ''a.pdf'',
                                    exampleRecord ''Math'' (Some ''U2'') ''b.pdf'']\<rparr>"
  let ?xs = "b_subjects (reconstruct (\<lambda>i. ''id'') ?b)"
  have h: "b_subjects ?b = []" by (simp add: emptyBackup_def)
  note t = reconstruct_subjects[OF h, of "\<lambda>i. ''id''"]
  have "firstSeen (filter (\<lambda>n. n \<noteq> [])
        (map r_subject (b_notes ?b @ b_practiceTests ?b @ b_practicals ?b @ b_assignments ?b)))
        = [''Math'']"
    by code_simp
  then have n: "map s_name ?xs = [''Math'']" using t by simp
  then obtain e where e: "?xs = [e]" "s_name e = ''Math''" by auto
  have "firstSeen (map (\<lambda>n. orEmpty (r_unit n))
           (filter (\<lambda>n. r_subject n = ''Math'' \<and> truthy (r_unit n)) (b_notes ?b)))
        = [''U1'', ''U2'']"
    by code_simp
  moreover have "s_units e = firstSeen (map (\<lambda>n. orEmpty (r_unit n))
           (filter (\<lambda>n. r_subject n = s_name e \<and> truthy (r_unit n)) (b_notes ?b)))"
    using t e(1) by simp
  ultimately have "s_units e = [''U1'', ''U2'']" using e(2) by simp
  then show ?thesis using n e(1) by simp
qed

section \<open>Insertion into the backup store\<close>

text \<open>Filtering out the matching records and pushing one that matches.\<close>

lemma filter_upsert:
  "P d \<Longrightarrow> filter P (filter (\<lambda>x. \<not> P x) xs @ [d]) = [d]"
  by (simp add: filter_empty_conv)

lemma filter_upsert_others:
  "P d \<Longrightarrow> filter (\<lambda>x. \<not> P x) (filter (\<lambda>x. \<not> P x) xs @ [d]) = filter (\<lambda>x. \<not> P x) xs"
  by simp

lemma listOf_pushRecord:
  assumes "type \<in> set categories"
  shows "listOf type (pushRecord type unit d b) =
     filter (\<lambda>x. \<not> sameIdentity type (r_storedFileName d) (r_subject d) unit x) (listOf type b)
     @ [if type = ''notes'' then d\<lparr>r_unit := Some unit\<rparr> else d]"
  using assms by (auto simp: categories_def listOf_def pushRecord_def sameIdentity_def)

lemma sameIdentity_pushed:
  "sameIdentity type (r_storedFileName d) (r_subject d) unit
     (if type = ''notes'' then d\<lparr>r_unit := Some unit\<rparr> else d)"
  by (simp add: sameIdentity_def sameNote_def sameFile_def)

lemma listOf_registerSubject:
  "listOf type (registerSubject newId subject ty unit b) = listOf type b"
  by (auto simp: listOf_def registerSubject_def Let_def split: option.splits)

lemma uploadHandler_success:
  assumes "uploadHandler sd c req f path s = (None, s')"
  shows "\<exists>filePath fs.
           fullBackupData s' =
             registerSubject (c_subjectId c) (orEmpty (q_subject req)) (orEmpty (q_type req)) (q_unit req)
               (pushRecord (trim (orEmpty (q_type req))) (trim (orEmpty (q_unit req)))
                  ((uploadRecord c req f filePath)\<lparr>r_unit := None\<rparr>) (fullBackupData s)) \<and>
           fileMetadata s' =
             mapSet (fileMetadata s)
               (trim (orEmpty (q_subject req)) @ ''-'' @ trim (orEmpty (q_type req)) @ ''-'' @
                trim (orEmpty (q_unit req)) @ ''-'' @ f_filename f)
               \<lparr>e_title = trim (orEmpty (q_title req)),
                e_description = trim (orEmpty (q_description req)),
                e_originalFileName = f_originalname f\<rparr> \<and>
           files s' = fs \<and>
           truthy (q_title req) \<and> truthy (q_subject req) \<and> truthy (q_type req) \<and>
           (q_type req = Some ''notes'' \<longrightarrow> truthy (q_unit req))"
  using assms
  unfolding uploadHandler_def Let_def
  by (auto simp: uploadRecord_def saveMetadata_def split: if_splits sum.splits option.splits prod.splits)


lemma upload_success:
  assumes "upload sd c req s = (None, s')" "q_file req = Some f"
  shows "\<exists>path s1. uploadHandler sd c req f path s1 = (None, s') \<and>
           fullBackupData s1 = fullBackupData s \<and> fileMetadata s1 = fileMetadata s"
proof (cases "destination sd (h_subject req) (h_type req) (h_unit req)")
  case (Inl e)
  then show ?thesis using assms by (simp add: upload_def multerStore_def)
next
  case (Inr dir)
  let ?p = "path_join [dir, f_filename f]"
  let ?s1 = "s\<lparr>files := addPath (ensureDirSync (files s) dir) ?p\<rparr>"
  have "uploadHandler sd c req f ?p ?s1 = (None, s')"
    using assms Inr by (simp add: upload_def multerStore_def Let_def)
  moreover have "fullBackupData ?s1 = fullBackupData s" "fileMetadata ?s1 = fileMetadata s"
    by simp_all
  ultimately show ?thesis by blast
qed

text \<open>
  C6. After a successful upload into one of the four categories, the list of the
  category holds exactly one record with the stored file name and the subject of the
  upload (and its unit, for notes), and this record has the field values of this
  upload; the records of any other identity are kept as they were, in their order. The
  server before the upload is arbitrary, so it may already hold a record of that
  identity from an earlier upload: that record is replaced.
\<close>

theorem upload_upserts:
  assumes "upload sd c req s = (None, s')" "q_file req = Some f"
    "trim (orEmpty (q_type req)) \<in> set categories"
  shows
   "\<exists>filePath.
      filter (sameIdentity (trim (orEmpty (q_type req))) (f_filename f)
                (trim (orEmpty (q_subject req))) (trim (orEmpty (q_unit req))))
        (listOf (trim (orEmpty (q_type req))) (fullBackupData s'))
      = [uploadRecord c req f filePath] \<and>
      filter (\<lambda>x. \<not> sameIdentity (trim (orEmpty (q_type req))) (f_filename f)
                (trim (orEmpty (q_subject req))) (trim (orEmpty (q_unit req))) x)
        (listOf (trim (orEmpty (q_type req))) (fullBackupData s'))
      = filter (\<lambda>x. \<not> sameIdentity (trim (orEmpty (q_type req))) (f_filename f)
                (trim (orEmpty (q_subject req))) (trim (orEmpty (q_unit req))) x)
          (listOf (trim (orEmpty (q_type req))) (fullBackupData s))"
proof -
  let ?T = "trim (orEmpty (q_type req))"
  let ?S = "trim (orEmpty (q_subject req))"
  let ?U = "trim (orEmpty (q_unit req))"
  obtain path s1 where h: "uploadHandler sd c req f path s1 = (None, s')"
    and b1: "fullBackupData s1 = fullBackupData s"
    using upload_success[OF assms(1,2)] by blast
  obtain filePath where b: "fullBackupData s' =
       registerSubject (c_subjectId c) (orEmpty (q_subject req)) (orEmpty (q_type req)) (q_unit req)
         (pushRecord ?T ?U ((uploadRecord c req f filePath)\<lparr>r_unit := None\<rparr>) (fullBackupData s))"
    using uploadHandler_success[OF h] b1 by auto
  let ?d = "(uploadRecord c req f filePath)\<lparr>r_unit := None\<rparr>"
  let ?P = "sameIdentity ?T (f_filename f) ?S ?U"
  have d: "r_storedFileName ?d = f_filename f" "r_subject ?d = ?S"
    by (simp_all add: uploadRecord_def)
  have r: "(if ?T = ''notes'' then ?d\<lparr>r_unit := Some ?U\<rparr> else ?d) = uploadRecord c req f filePath"
    by (simp add: uploadRecord_def)
  have l: "listOf ?T (fullBackupData s') =
      filter (\<lambda>x. \<not> ?P x) (listOf ?T (fullBackupData s)) @ [uploadRecord c req f filePath]"
    unfolding b listOf_registerSubject using listOf_pushRecord[OF assms(3), of ?U ?d "fullBackupData s"]
    unfolding d r .
  have p: "?P (uploadRecord c req f filePath)"
    using sameIdentity_pushed[of ?T ?d ?U] unfolding d r .
  have "filter ?P (listOf ?T (fullBackupData s')) = [uploadRecord c req f filePath]"
    unfolding l using filter_upsert[of ?P, OF p] .
  moreover have "filter (\<lambda>x. \<not> ?P x) (listOf ?T (fullBackupData s'))
      = filter (\<lambda>x. \<not> ?P x) (listOf ?T (fullBackupData s))"
    unfolding l using filter_upsert_others[of ?P, OF p] .
  ultimately show ?thesis by blast
qed

text \<open>Two uploads of the same identity in sequence: one record is left, with the
  second title.\<close>

theorem upload_upserts_witness:
  "map r_title (listOf ''notes'' (fullBackupData afterFirstUpload)) = [''Sets''] \<and>
   fst (upload (storageDirOf ''/srv/app'') exampleClock secondUpload afterFirstUpload) = None \<and>
   map r_title (listOf ''notes'' (fullBackupData
      (snd (upload (storageDirOf ''/srv/app'') exampleClock secondUpload afterFirstUpload))))
     = [''Sets, second edition''] \<and>
   (\<exists>filePath.
      filter (sameIdentity ''notes'' ''sets_1700000000123.pdf'' ''Math'' ''U1'')
        (listOf ''notes'' (fullBackupData
           (snd (upload (storageDirOf ''/srv/app'') exampleClock secondUpload afterFirstUpload))))
      = [uploadRecord exampleClock secondUpload exampleFile filePath])"
proof -
  let ?sd = "storageDirOf ''/srv/app''"
  let ?s' = "snd (upload ?sd exampleClock secondUpload afterFirstUpload)"
  have h1: "upload ?sd exampleClock secondUpload afterFirstUpload = (None, ?s')"
    by code_simp
  have h2: "q_file secondUpload = Some exampleFile"
    by (simp add: secondUpload_def exampleUpload_def)
  have t: "trim (orEmpty (q_type secondUpload)) = ''notes''"
    "trim (orEmpty (q_subject secondUpload)) = ''Math''"
    "trim (orEmpty (q_unit secondUpload)) = ''U1''"
    "f_filename exampleFile = ''sets_1700000000123.pdf''"
    by code_simp+
  have h3: "trim (orEmpty (q_type secondUpload)) \<in> set categories"
    unfolding t by (simp add: categories_def)
  have a: "map r_title (listOf ''notes'' (fullBackupData afterFirstUpload)) = [''Sets'']"
    by code_simp
  have b: "map r_title (listOf ''notes'' (fullBackupData ?s')) = [''Sets, second edition'']"
    by code_simp
  have c: "fst (upload ?sd exampleClock secondUpload afterFirstUpload) = None"
    by (subst h1) simp
  from upload_upserts[OF h1 h2 h3, unfolded t]
  have "\<exists>filePath.
      filter (sameIdentity ''notes'' ''sets_1700000000123.pdf'' ''Math'' ''U1'')
        (listOf ''notes'' (fullBackupData ?s'))
      = [uploadRecord exampleClock secondUpload exampleFile filePath]"
    by blast
  then show ?thesis using a b c by blast
qed

section \<open>Units of a subject\<close>

text \<open>\<^verbatim>\<open>findIndex\<close> returns the first index that satisfies the test.\<close>

lemma findIndex_None: "(findIndex P xs = None) = (\<forall>x\<in>set xs. \<not> P x)"
  by (induction xs) (auto split: option.splits)

lemma findIndex_Some: "findIndex P xs = Some i \<Longrightarrow> i < length xs \<and> P (xs ! i)"
  by (induction xs arbitrary: i) (auto split: if_splits option.splits)

lemma keepsUnits_refl: "keepsUnits e e"
  by (simp add: keepsUnits_def)

lemma keepsUnits_pushUnit: "keepsUnits e (pushUnit u e)"
  by (simp add: keepsUnits_def pushUnit_def)

lemma unitsGrow_same: "b_subjects b' = b_subjects b \<Longrightarrow> unitsGrow b b'"
  by (simp add: unitsGrow_def list_all2_conv_all_nth keepsUnits_refl)

lemma unitsGrow_append: "b_subjects b' = b_subjects b @ ys \<Longrightarrow> unitsGrow b b'"
  by (simp add: unitsGrow_def list_all2_conv_all_nth keepsUnits_refl)

lemma unitsGrow_update:
  assumes "b_subjects b' = (b_subjects b)[i := pushUnit u (b_subjects b ! i)]"
  shows "unitsGrow b b'"
proof -
  have "keepsUnits (b_subjects b ! j) ((b_subjects b)[i := pushUnit u (b_subjects b ! i)] ! j)"
    if "j < length (b_subjects b)" for j
    using that by (cases "j = i") (simp_all add: keepsUnits_refl keepsUnits_pushUnit)
  then show ?thesis
    using assms by (simp add: unitsGrow_def list_all2_conv_all_nth)
qed

lemma subjects_pushRecord: "b_subjects (pushRecord type unit d b) = b_subjects b"
  by (simp add: pushRecord_def)

lemma subjects_removeRecords: "b_subjects (removeRecords subject type unit filename b) = b_subjects b"
  by (simp add: removeRecords_def)

lemma subjectExists_findIndex:
  "(\<exists>e\<in>set xs. P e) = (findIndex P xs \<noteq> None)"
  by (simp add: findIndex_None)

lemma subjects_registerSubject:
  "b_subjects (registerSubject newId subject type unit b) =
     (case findIndex (\<lambda>e. s_name e = trim subject) (b_subjects b) of
        None \<Rightarrow> b_subjects b @
          [\<lparr>s_id = newId, s_name = trim subject,
            s_units = (if type = ''notes'' \<and> truthy unit then [trim (orEmpty unit)] else [])\<rparr>]
      | Some i \<Rightarrow>
          if type = ''notes'' \<and> truthy unit \<and>
             trim (orEmpty unit) \<notin> set (s_units (b_subjects b ! i))
          then (b_subjects b)[i := pushUnit (trim (orEmpty unit)) (b_subjects b ! i)]
          else b_subjects b)"
  unfolding registerSubject_def Let_def subjectExists_findIndex
  by (simp split: option.splits)

lemma unitsGrow_registerSubject:
  assumes "b_subjects b1 = b_subjects b"
  shows "unitsGrow b (registerSubject newId subject type unit b1)"
proof (cases "findIndex (\<lambda>e. s_name e = trim subject) (b_subjects b)")
  case None
  then show ?thesis
    using assms by (intro unitsGrow_append) (simp add: subjects_registerSubject)
next
  case (Some i)
  show ?thesis
  proof (cases "type = ''notes'' \<and> truthy unit \<and>
             trim (orEmpty unit) \<notin> set (s_units (b_subjects b ! i))")
    case True
    then show ?thesis using assms Some
      by (intro unitsGrow_update[of _ _ i "trim (orEmpty unit)"]) (simp add: subjects_registerSubject)
  next
    case False
    then show ?thesis using assms Some
      by (intro unitsGrow_same) (auto simp add: subjects_registerSubject)
  qed
qed

lemma uploadHandler_cases:
  "fullBackupData (snd (uploadHandler sd c req f path s)) = fullBackupData s \<or>
   fst (uploadHandler sd c req f path s) = None"
  unfolding uploadHandler_def Let_def
  by (auto split: if_splits sum.splits option.splits prod.splits)


lemma unitsGrow_uploadHandler:
  "unitsGrow (fullBackupData s) (fullBackupData (snd (uploadHandler sd c req f path s)))"
proof (cases "fst (uploadHandler sd c req f path s) = None")
  case True
  then have "uploadHandler sd c req f path s = (None, snd (uploadHandler sd c req f path s))"
    by (metis prod.collapse)
  from uploadHandler_success[OF this] obtain filePath where
    "fullBackupData (snd (uploadHandler sd c req f path s)) =
       registerSubject (c_subjectId c) (orEmpty (q_subject req)) (orEmpty (q_type req)) (q_unit req)
         (pushRecord (trim (orEmpty (q_type req))) (trim (orEmpty (q_unit req)))
            ((uploadRecord c req f filePath)\<lparr>r_unit := None\<rparr>) (fullBackupData s))"
    by blast
  then show ?thesis
    using unitsGrow_registerSubject[OF subjects_pushRecord] by simp
next
  case False
  then show ?thesis using uploadHandler_cases[of sd c req f path s] unitsGrow_same by auto
qed

lemma unitsGrow_upload:
  "unitsGrow (fullBackupData s) (fullBackupData (snd (upload sd c req s)))"
proof (cases "q_file req")
  case None
  then show ?thesis by (simp add: upload_def unitsGrow_same)
next
  case (Some f)
  show ?thesis
  proof (cases "destination sd (h_subject req) (h_type req) (h_unit req)")
    case (Inl e)
    then show ?thesis using Some by (simp add: upload_def multerStore_def unitsGrow_same)
  next
    case (Inr dir)
    let ?p = "path_join [dir, f_filename f]"
    let ?s1 = "s\<lparr>files := addPath (ensureDirSync (files s) dir) ?p\<rparr>"
    have "upload sd c req s = uploadHandler sd c req f ?p ?s1"
      using Some Inr by (simp add: upload_def multerStore_def Let_def)
    moreover have "fullBackupData ?s1 = fullBackupData s" by simp
    ultimately show ?thesis using unitsGrow_uploadHandler[of ?s1 sd c req f ?p] by simp
  qed
qed

lemma unitsGrow_addUnit:
  "unitsGrow (fullBackupData s) (fullBackupData (addUnit sd now subjectName unitName s))"
proof (cases "findIndex (\<lambda>e. s_name e = subjectName) (b_subjects (fullBackupData s))")
  case None
  then show ?thesis by (simp add: addUnit_def Let_def unitsGrow_same)
next
  case (Some i)
  show ?thesis
  proof (cases "unitName \<notin> set (s_units (b_subjects (fullBackupData s) ! i))")
    case True
    then show ?thesis using Some
      by (intro unitsGrow_update[of _ _ i unitName]) (simp add: addUnit_def Let_def saveMetadata_def)
  next
    case False
    then show ?thesis using Some by (simp add: addUnit_def Let_def unitsGrow_same)
  qed
qed

lemma unitsGrow_deleteFile:
  "unitsGrow (fullBackupData s)
     (fullBackupData (case deleteFile sd now subject type unit filename s of
                        Inl e \<Rightarrow> s | Inr s' \<Rightarrow> s'))"
  unfolding deleteFile_deletedPath
  by (auto split: option.splits intro!: unitsGrow_same
      simp: deleteAt_def saveMetadata_def subjects_removeRecords Let_def)

lemma unitsGrow_createSubject:
  assumes "name \<notin> set (map s_name (b_subjects (fullBackupData s)))"
  shows "unitsGrow (fullBackupData s) (fullBackupData (createSubject sd newId now name units s))"
proof -
  have "findIndex (\<lambda>e. s_name e = name) (b_subjects (fullBackupData s)) = None"
    using assms by (auto simp: findIndex_None)
  then show ?thesis
    by (intro unitsGrow_append) (simp add: createSubject_def Let_def saveMetadata_def)
qed

lemma subjects_upload:
  assumes "fst (upload sd c req s) = None"
  shows "b_subjects (fullBackupData (snd (upload sd c req s))) =
     (case findIndex (\<lambda>e. s_name e = trim (orEmpty (q_subject req)))
             (b_subjects (fullBackupData s)) of
        None \<Rightarrow> b_subjects (fullBackupData s) @
          [\<lparr>s_id = c_subjectId c, s_name = trim (orEmpty (q_subject req)),
            s_units = (if q_type req = Some ''notes'' then [trim (orEmpty (q_unit req))] else [])\<rparr>]
      | Some i \<Rightarrow>
          if q_type req = Some ''notes'' \<and>
             trim (orEmpty (q_unit req)) \<notin> set (s_units (b_subjects (fullBackupData s) ! i))
          then (b_subjects (fullBackupData s))
                 [i := pushUnit (trim (orEmpty (q_unit req))) (b_subjects (fullBackupData s) ! i)]
          else b_subjects (fullBackupData s))"
proof -
  obtain f where f: "q_file req = Some f"
    using assms by (cases "q_file req") (simp_all add: upload_def)
  have u: "upload sd c req s = (None, snd (upload sd c req s))"
    using assms by (metis prod.collapse)
  obtain path s1 where h: "uploadHandler sd c req f path s1 = (None, snd (upload sd c req s))"
    and b1: "fullBackupData s1 = fullBackupData s"
    using upload_success[OF u f] by blast
  obtain filePath where b: "fullBackupData (snd (upload sd c req s)) =
       registerSubject (c_subjectId c) (orEmpty (q_subject req)) (orEmpty (q_type req)) (q_unit req)
         (pushRecord (trim (orEmpty (q_type req))) (trim (orEmpty (q_unit req)))
            ((uploadRecord c req f filePath)\<lparr>r_unit := None\<rparr>) (fullBackupData s))"
    and t: "truthy (q_type req)" "q_type req = Some ''notes'' \<longrightarrow> truthy (q_unit req)"
    using uploadHandler_success[OF h] b1 by auto
  have n: "(orEmpty (q_type req) = ''notes'') = (q_type req = Some ''notes'')"
    using t(1) by (auto simp: truthy_def orEmpty_def split: option.splits)
  have nu: "(orEmpty (q_type req) = ''notes'' \<and> truthy (q_unit req)) = (q_type req = Some ''notes'')"
    using n t(2) by blast
  show ?thesis
  proof (cases "q_type req = Some ''notes''")
    case True
    then have "orEmpty (q_type req) = ''notes''" "truthy (q_unit req)" using n t(2) by auto
    then show ?thesis
      unfolding b subjects_registerSubject subjects_pushRecord using True
      by (simp split: option.splits)
  next
    case False
    then have "orEmpty (q_type req) \<noteq> ''notes''" using n by simp
    then show ?thesis
      unfolding b subjects_registerSubject subjects_pushRecord using False
      by (simp split: option.splits)
  qed
qed


lemma subjects_createSubject_existing:
  "findIndex (\<lambda>e. s_name e = name) (b_subjects (fullBackupData s)) = Some i \<Longrightarrow>
   b_subjects (fullBackupData (createSubject sd newId now name units s)) =
     (b_subjects (fullBackupData s))
       [i := \<lparr>s_id = newId, s_name = name,
               s_units = (case units of None \<Rightarrow> [] | Some us \<Rightarrow> us)\<rparr>]"
  by (simp add: createSubject_def Let_def saveMetadata_def)

lemma subjects_deleteSubject:
  "subjectName \<noteq> [] \<Longrightarrow> toLowerCase subjectName \<noteq> ''temp'' \<Longrightarrow>
   b_subjects (fullBackupData (snd (deleteSubject sd now subjectName s))) =
     filter (\<lambda>e. s_name e \<noteq> subjectName) (b_subjects (fullBackupData s))"
  by (simp add: deleteSubject_def Let_def saveMetadata_def)

lemma deleteSubject_refused:
  "subjectName = [] \<or> toLowerCase subjectName = ''temp'' \<Longrightarrow>
   deleteSubject sd now subjectName s = (Some InvalidSubjectName, s)"
  by (auto simp: deleteSubject_def)

text \<open>
  C2, as the code has it. Across an upload, the addition of a unit, the lookup and the
  deletion of a file, and the creation of a subject under a name that is not registered
  yet, every subject entry keeps its place and its name and its units are extended at
  the end only. A successful upload of a note appends its unit to the first entry of
  its subject when the unit is not there, changes no entry when it is, and registers an
  unknown subject with that unit alone. The creation of a subject under a name that is
  registered replaces the entry, so its units become the units of the request. The
  deletion of a subject removes every entry of that name and keeps the others; it is
  refused, and changes nothing, for a name that is \<^verbatim>\<open>temp\<close> in lower case.
\<close>

theorem units_accumulate:
  "(accumulating r s \<longrightarrow> unitsGrow (fullBackupData s) (fullBackupData (handle sd r s))) \<and>
   (fst (upload sd c req s) = None \<longrightarrow>
      b_subjects (fullBackupData (handle sd (Upload c req) s)) =
        (case findIndex (\<lambda>e. s_name e = trim (orEmpty (q_subject req)))
                (b_subjects (fullBackupData s)) of
           None \<Rightarrow> b_subjects (fullBackupData s) @
             [\<lparr>s_id = c_subjectId c, s_name = trim (orEmpty (q_subject req)),
               s_units = (if q_type req = Some ''notes'' then [trim (orEmpty (q_unit req))] else [])\<rparr>]
         | Some i \<Rightarrow>
             if q_type req = Some ''notes'' \<and>
                trim (orEmpty (q_unit req)) \<notin> set (s_units (b_subjects (fullBackupData s) ! i))
             then (b_subjects (fullBackupData s))
                    [i := pushUnit (trim (orEmpty (q_unit req))) (b_subjects (fullBackupData s) ! i)]
             else b_subjects (fullBackupData s))) \<and>
   (\<forall>i. findIndex (\<lambda>e. s_name e = name) (b_subjects (fullBackupData s)) = Some i \<longrightarrow>
      b_subjects (fullBackupData (handle sd (CreateSubject newId now name units) s)) =
        (b_subjects (fullBackupData s))
          [i := \<lparr>s_id = newId, s_name = name,
                  s_units = (case units of None \<Rightarrow> [] | Some us \<Rightarrow> us)\<rparr>]) \<and>
   (subjectName \<noteq> [] \<and> toLowerCase subjectName \<noteq> ''temp'' \<longrightarrow>
      b_subjects (fullBackupData (handle sd (DeleteSubject now subjectName) s)) =
        filter (\<lambda>e. s_name e \<noteq> subjectName) (b_subjects (fullBackupData s))) \<and>
   (subjectName = [] \<or> toLowerCase subjectName = ''temp'' \<longrightarrow>
      handle sd (DeleteSubject now subjectName) s = s)"
proof (intro conjI impI allI)
  assume a: "accumulating r s"
  show "unitsGrow (fullBackupData s) (fullBackupData (handle sd r s))"
  proof (cases r)
    case (Upload c' req')
    then show ?thesis by (simp add: unitsGrow_upload)
  next
    case (CreateSubject newId' now' name' units')
    then show ?thesis using a by (simp add: unitsGrow_createSubject)
  next
    case (AddUnit now' subjectName unitName)
    then show ?thesis by (simp add: unitsGrow_addUnit)
  next
    case (GetFile subject type unit filename)
    then show ?thesis by (simp add: unitsGrow_same)
  next
    case (DeleteFile now' subject type unit filename)
    then show ?thesis by (simp add: unitsGrow_deleteFile)
  next
    case (DeleteSubject now' subjectName)
    then show ?thesis using a by simp
  qed
next
  assume "fst (upload sd c req s) = None"
  then show "b_subjects (fullBackupData (handle sd (Upload c req) s)) =
        (case findIndex (\<lambda>e. s_name e = trim (orEmpty (q_subject req)))
                (b_subjects (fullBackupData s)) of
           None \<Rightarrow> b_subjects (fullBackupData s) @
             [\<lparr>s_id = c_subjectId c, s_name = trim (orEmpty (q_subject req)),
               s_units = (if q_type req = Some ''notes'' then [trim (orEmpty (q_unit req))] else [])\<rparr>]
         | Some i \<Rightarrow>
             if q_type req = Some ''notes'' \<and>
                trim (orEmpty (q_unit req)) \<notin> set (s_units (b_subjects (fullBackupData s) ! i))
             then (b_subjects (fullBackupData s))
                    [i := pushUnit (trim (orEmpty (q_unit req))) (b_subjects (fullBackupData s) ! i)]
             else b_subjects (fullBackupData s))"
    using subjects_upload[of sd c req s] by simp
next
  fix i
  assume "findIndex (\<lambda>e. s_name e = name) (b_subjects (fullBackupData s)) = Some i"
  then show "b_subjects (fullBackupData (handle sd (CreateSubject newId now name units) s)) =
        (b_subjects (fullBackupData s))
          [i := \<lparr>s_id = newId, s_name = name,
                  s_units = (case units of None \<Rightarrow> [] | Some us \<Rightarrow> us)\<rparr>]"
    using subjects_createSubject_existing by simp
next
  assume "subjectName \<noteq> [] \<and> toLowerCase subjectName \<noteq> ''temp''"
  then show "b_subjects (fullBackupData (handle sd (DeleteSubject now subjectName) s)) =
        filter (\<lambda>e. s_name e \<noteq> subjectName) (b_subjects (fullBackupData s))"
    using subjects_deleteSubject[of subjectName sd now s] by simp
next
  assume "subjectName = [] \<or> toLowerCase subjectName = ''temp''"
  then show "handle sd (DeleteSubject now subjectName) s = s"
    using deleteSubject_refused[of subjectName sd now s] by simp
qed

text \<open>
  C2 as stated fails: a request to create the subject Math without units, when Math is
  registered with the unit U1, leaves Math without units.
\<close>

theorem units_accumulate_counterexample:
  "map s_units (b_subjects (fullBackupData afterFirstUpload)) = [[''U1'']] \<and>
   map s_units (b_subjects (fullBackupData
      (handle (storageDirOf ''/srv/app'')
         (CreateSubject ''1700000000200'' ''2026-01-02T00:00:00.000Z'' ''Math'' None)
         afterFirstUpload))) = [[]]"
  by code_simp

text \<open>An upload of a note of Math under the new unit U2, the deletion of the subject
  Math, and the refused deletion of a subject Temp.\<close>

theorem units_accumulate_witness:
  "unitsGrow (fullBackupData afterFirstUpload)
     (fullBackupData (handle (storageDirOf ''/srv/app'')
        (Upload exampleClock (exampleUpload ''Math'' ''notes'' (Some ''U2''))) afterFirstUpload)) \<and>
   map s_units (b_subjects (fullBackupData afterFirstUpload)) = [[''U1'']] \<and>
   map s_units (b_subjects (fullBackupData (handle (storageDirOf ''/srv/app'')
        (Upload exampleClock (exampleUpload ''Math'' ''notes'' (Some ''U2''))) afterFirstUpload)))
     = [[''U1'', ''U2'']] \<and>
   b_subjects (fullBackupData (handle (storageDirOf ''/srv/app'')
        (DeleteSubject ''2026-01-02T00:00:00.000Z'' ''Math'') afterFirstUpload)) = [] \<and>
   handle (storageDirOf ''/srv/app'') (DeleteSubject ''2026-01-02T00:00:00.000Z'' ''Temp'')
     afterFirstUpload = afterFirstUpload"
proof -
  let ?sd = "storageDirOf ''/srv/app''"
  let ?now = "''2026-01-02T00:00:00.000Z''"
  let ?r = "Upload exampleClock (exampleUpload ''Math'' ''notes'' (Some ''U2''))"
  have h: "accumulating ?r afterFirstUpload" by simp
  have "unitsGrow (fullBackupData afterFirstUpload)
     (fullBackupData (handle ?sd ?r afterFirstUpload))"
    using units_accumulate[of ?r afterFirstUpload ?sd] h by blast
  moreover have "map s_units (b_subjects (fullBackupData afterFirstUpload)) = [[''U1'']]"
    by code_simp
  moreover have "map s_units (b_subjects (fullBackupData (handle ?sd ?r afterFirstUpload)))
      = [[''U1'', ''U2'']]"
    by code_simp
  moreover have "b_subjects (fullBackupData (handle ?sd (DeleteSubject ?now ''Math'')
      afterFirstUpload)) = []"
  proof -
    have m: "''Math'' \<noteq> [] \<and> toLowerCase ''Math'' \<noteq> ''temp''" by code_simp
    have f: "filter (\<lambda>e. s_name e \<noteq> ''Math'') (b_subjects (fullBackupData afterFirstUpload)) = []"
      by code_simp
    show ?thesis
      using units_accumulate[where subjectName = "''Math''" and s = afterFirstUpload
          and sd = ?sd and now = ?now] m f
      by simp
  qed
  moreover have "handle ?sd (DeleteSubject ?now ''Temp'') afterFirstUpload = afterFirstUpload"
  proof -
    have t: "''Temp'' = [] \<or> toLowerCase ''Temp'' = ''temp''" by code_simp
    show ?thesis
      using units_accumulate[where subjectName = "''Temp''" and s = afterFirstUpload
          and sd = ?sd and now = ?now] t
      by blast
  qed
  ultimately show ?thesis by blast
qed

section \<open>Running the startup block twice\<close>

text \<open>After the loops the index has the key of every record, so running them again
  adds nothing.\<close>

lemma mapHas_foldl_mono:
  "mapHas m k \<Longrightarrow> mapHas (foldl (backfillOne key) m rs) k"
  using foldl_backfillOne[of key m rs] by (auto simp: mapHas_append)

lemma mapHas_backfillOne: "mapHas (backfillOne key m r) (key r)"
  by (simp add: backfillOne_eq mapHas_append) (simp add: mapHas_def)

lemma foldl_has:
  "r \<in> set rs \<Longrightarrow> mapHas (foldl (backfillOne key) m rs) (key r)"
proof (induction rs arbitrary: m)
  case Nil
  then show ?case by simp
next
  case (Cons a rs)
  show ?case
  proof (cases "r = a")
    case True
    then show ?thesis using mapHas_foldl_mono[OF mapHas_backfillOne] by simp
  next
    case False
    then show ?thesis using Cons by simp
  qed
qed

lemma foldl_id:
  "\<forall>r\<in>set rs. mapHas m (key r) \<Longrightarrow> foldl (backfillOne key) m rs = m"
  by (induction rs) (simp_all add: backfillOne_eq)

lemma backfill_has:
  "\<forall>r\<in>set (b_notes b). mapHas (backfill m b) (notesKey r)"
  "\<forall>r\<in>set (b_practiceTests b). mapHas (backfill m b) (practiceTestsKey r)"
  "\<forall>r\<in>set (b_practicals b). mapHas (backfill m b) (practicalsKey r)"
  "\<forall>r\<in>set (b_assignments b). mapHas (backfill m b) (assignmentsKey r)"
  unfolding backfill_def
  by (auto intro!: mapHas_foldl_mono foldl_has)

lemma backfill_idem:
  assumes "b_notes b' = b_notes b" "b_practiceTests b' = b_practiceTests b"
    "b_practicals b' = b_practicals b" "b_assignments b' = b_assignments b"
  shows "backfill (backfill m b) b' = backfill m b"
proof -
  let ?M = "backfill m b"
  have 1: "foldl (backfillOne notesKey) ?M (b_notes b) = ?M"
    by (rule foldl_id) (rule backfill_has)
  have 2: "foldl (backfillOne practiceTestsKey) ?M (b_practiceTests b) = ?M"
    by (rule foldl_id) (rule backfill_has)
  have 3: "foldl (backfillOne practicalsKey) ?M (b_practicals b) = ?M"
    by (rule foldl_id) (rule backfill_has)
  have 4: "foldl (backfillOne assignmentsKey) ?M (b_assignments b) = ?M"
    by (rule foldl_id) (rule backfill_has)
  have "backfill ?M b' =
        foldl (backfillOne assignmentsKey)
         (foldl (backfillOne practicalsKey)
           (foldl (backfillOne practiceTestsKey)
             (foldl (backfillOne notesKey) ?M (b_notes b))
             (b_practiceTests b))
           (b_practicals b))
         (b_assignments b)"
    unfolding backfill_def[of ?M b'] assms ..
  then show ?thesis unfolding 1 2 3 4 .
qed

lemma parseBackup_backupData:
  "parseBackup (backupData now b) = Some (b\<lparr>b_lastBackup := Some now\<rparr>)"
  by (cases b) (simp add: parseBackup_def backupData_def)

lemma allSubjects_cong:
  assumes "b_notes b' = b_notes b" "b_practiceTests b' = b_practiceTests b"
    "b_practicals b' = b_practicals b" "b_assignments b' = b_assignments b"
  shows "allSubjects b' = allSubjects b"
  unfolding allSubjects_def assms ..

lemma reconstructSubjects_Nil:
  "(reconstructSubjects newId b = []) = (allSubjects b = [])"
  by (simp add: reconstructSubjects_def enumerate_eq_zip)

lemma reconstruct_lists [simp]:
  "b_notes (reconstruct newId b) = b_notes b"
  "b_practiceTests (reconstruct newId b) = b_practiceTests b"
  "b_practicals (reconstruct newId b) = b_practicals b"
  "b_assignments (reconstruct newId b) = b_assignments b"
  "b_lastBackup (reconstruct newId b) = b_lastBackup b"
  by (simp_all add: reconstruct_def)

lemma reconstruct_empty:
  assumes "b_subjects (reconstruct n1 b) = []"
  shows "b_subjects b = [] \<and> allSubjects b = []"
  using assms by (auto simp: reconstruct_def reconstructSubjects_Nil split: if_splits)

lemma reconstruct_none:
  assumes "b_subjects b = []" "allSubjects b = []"
  shows "reconstruct n b = b"
  using assms reconstructSubjects_Nil[of n b] by (cases b) (simp add: reconstruct_def)

lemma reconstruct_again:
  assumes "b_notes b' = b_notes b" "b_practiceTests b' = b_practiceTests b"
    "b_practicals b' = b_practicals b" "b_assignments b' = b_assignments b"
    "b_subjects b' = b_subjects (reconstruct n1 b)"
  shows "reconstruct n2 b' = b'"
proof (cases "b_subjects b' = []")
  case True
  then have "allSubjects b = []" using reconstruct_empty[of n1 b] assms(5) by simp
  then have "allSubjects b' = []" using allSubjects_cong[OF assms(1-4)] by simp
  then show ?thesis using True by (rule reconstruct_none[rotated])
next
  case False
  then show ?thesis by (simp add: reconstruct_def)
qed

lemma loadMetadata_cong:
  "metadataFile s' = metadataFile s \<Longrightarrow> backupFile s' = backupFile s \<Longrightarrow>
   loadMetadata s' = loadMetadata s"
  by (simp add: loadMetadata_def split: doc.splits)

lemma loadMetadata_saved:
  "metadataFile s = Doc m \<Longrightarrow> backupFile s = Doc (backupData now b) \<Longrightarrow>
   loadMetadata s = (m, b\<lparr>b_lastBackup := Some now\<rparr>)"
  by (simp add: loadMetadata_def parseBackup_backupData)

lemma startup_eq:
  assumes "loadMetadata s = (m0, b0)"
  shows "startup newId now s =
     (if length (backfill m0 b0) > length m0 \<or> b_subjects (reconstruct newId b0) \<noteq> []
      then saveMetadata now (s\<lparr>fileMetadata := backfill m0 b0, fullBackupData := reconstruct newId b0\<rparr>)
      else s\<lparr>fileMetadata := backfill m0 b0, fullBackupData := reconstruct newId b0\<rparr>)"
  using assms by (simp add: startup_def Let_def)

lemma backupData_lastBackup:
  "backupData now (b\<lparr>b_lastBackup := x\<rparr>) = backupData now b"
  by (simp add: backupData_def)


text \<open>The second run of the startup block, by whether the first run wrote the
  documents.\<close>

lemma startup_twice_aux:
  fixes s :: server and newId1 newId2 :: "nat \<Rightarrow> string" and now1 now2 :: string
  defines "s1 \<equiv> startup newId1 now1 s"
  defines "s2 \<equiv> startup newId2 now2 s1"
  shows "files s2 = files s1 \<and> fileMetadata s2 = fileMetadata s1 \<and>
     metadataFile s2 = metadataFile s1 \<and>
     (fullBackupData s2)\<lparr>b_lastBackup := None\<rparr> = (fullBackupData s1)\<lparr>b_lastBackup := None\<rparr> \<and>
     withoutLastBackup (backupFile s2) = withoutLastBackup (backupFile s1) \<and>
     (b_subjects (fullBackupData s1) = [] \<longrightarrow> backupFile s2 = backupFile s1) \<and>
     (b_subjects (fullBackupData s1) \<noteq> [] \<longrightarrow>
        backupFile s1 = Doc (backupData now1 (fullBackupData s1)) \<and>
        backupFile s2 = Doc (backupData now2 (fullBackupData s1)))"
proof -
  obtain m0 b0 where l: "loadMetadata s = (m0, b0)" by (cases "loadMetadata s")
  define m1 where "m1 = backfill m0 b0"
  define b1 where "b1 = reconstruct newId1 b0"
  define t where "t = s\<lparr>fileMetadata := m1, fullBackupData := b1\<rparr>"
  have s1: "s1 = (if length m1 > length m0 \<or> b_subjects b1 \<noteq> [] then saveMetadata now1 t else t)"
    unfolding s1_def startup_eq[OF l] m1_def b1_def t_def ..
  show ?thesis
  proof (cases "length m1 > length m0 \<or> b_subjects b1 \<noteq> []")
    case False
    then have e: "s1 = t" and sub: "b_subjects b1 = []" using s1 by auto
    have l1: "loadMetadata s1 = (m0, b0)"
      using loadMetadata_cong[of s1 s] l unfolding e t_def by simp
    have r: "reconstruct newId2 b0 = b1"
      using reconstruct_empty[of newId1 b0] sub reconstruct_none[of b0]
      unfolding b1_def by simp
    have "s2 = s1"
      unfolding s2_def startup_eq[OF l1] r m1_def[symmetric]
      using False unfolding e t_def by simp
    then show ?thesis using sub unfolding e t_def by simp
  next
    case True
    then have e: "s1 = saveMetadata now1 t" using s1 by simp
    have d: "metadataFile s1 = Doc m1" "backupFile s1 = Doc (backupData now1 b1)"
      "fileMetadata s1 = m1" "fullBackupData s1 = b1" "files s1 = files s"
      unfolding e t_def by (simp_all add: saveMetadata_def)
    let ?b = "b1\<lparr>b_lastBackup := Some now1\<rparr>"
    have l1: "loadMetadata s1 = (m1, ?b)"
      by (rule loadMetadata_saved[OF d(1,2)])
    have bf: "backfill m1 ?b = m1"
      unfolding m1_def by (rule backfill_idem) (simp_all add: b1_def)
    have rc: "reconstruct newId2 ?b = ?b"
      by (rule reconstruct_again[of _ b0 newId1]) (simp_all add: b1_def)
    have s2: "s2 = (if b_subjects b1 \<noteq> []
                    then saveMetadata now2 (s1\<lparr>fileMetadata := m1, fullBackupData := ?b\<rparr>)
                    else s1\<lparr>fileMetadata := m1, fullBackupData := ?b\<rparr>)"
      unfolding s2_def startup_eq[OF l1] bf rc by simp
    show ?thesis
    proof (cases "b_subjects b1 = []")
      case True
      then have "s2 = s1\<lparr>fileMetadata := m1, fullBackupData := ?b\<rparr>" using s2 by simp
      then show ?thesis using True d by simp
    next
      case False
      then have "s2 = saveMetadata now2 (s1\<lparr>fileMetadata := m1, fullBackupData := ?b\<rparr>)"
        using s2 by simp
      then show ?thesis using False d
        by (simp add: saveMetadata_def backupData_lastBackup withoutLastBackup_def backupData_def)
    qed
  qed
qed

text \<open>
  C1, as the code has it. A second run of the startup block, right after a first one,
  leaves the storage directory, the flat index in memory and the document
  \<^verbatim>\<open>file-metadata.json\<close> as the first run left them, and the backup in memory
  and the backup document as the first run left them except for the time stamp
  \<^verbatim>\<open>lastBackup\<close>. When the subject list after the first run is empty the
  second run writes nothing. Otherwise both runs write the backup document, each with
  the time of its own write as \<^verbatim>\<open>lastBackup\<close>, so the two documents are the
  same only when the two times are.
\<close>

theorem startup_twice:
  "files (startup newId2 now2 (startup newId1 now1 s)) = files (startup newId1 now1 s) \<and>
   fileMetadata (startup newId2 now2 (startup newId1 now1 s)) = fileMetadata (startup newId1 now1 s) \<and>
   metadataFile (startup newId2 now2 (startup newId1 now1 s)) = metadataFile (startup newId1 now1 s) \<and>
   (fullBackupData (startup newId2 now2 (startup newId1 now1 s)))\<lparr>b_lastBackup := None\<rparr>
     = (fullBackupData (startup newId1 now1 s))\<lparr>b_lastBackup := None\<rparr> \<and>
   withoutLastBackup (backupFile (startup newId2 now2 (startup newId1 now1 s)))
     = withoutLastBackup (backupFile (startup newId1 now1 s)) \<and>
   (b_subjects (fullBackupData (startup newId1 now1 s)) = [] \<longrightarrow>
      backupFile (startup newId2 now2 (startup newId1 now1 s)) = backupFile (startup newId1 now1 s)) \<and>
   (b_subjects (fullBackupData (startup newId1 now1 s)) \<noteq> [] \<longrightarrow>
      backupFile (startup newId1 now1 s)
        = Doc (backupData now1 (fullBackupData (startup newId1 now1 s))) \<and>
      backupFile (startup newId2 now2 (startup newId1 now1 s))
        = Doc (backupData now2 (fullBackupData (startup newId1 now1 s))))"
  by (rule startup_twice_aux[of newId2 now2 newId1 now1 s])

text \<open>
  C1 as stated fails: the backup document written by the second run differs from the
  one written by the first run, in \<^verbatim>\<open>lastBackup\<close>.
\<close>

theorem startup_twice_counterexample:
  "backupFile (startup (\<lambda>i. ''id'') ''2026-01-02T00:00:00.000Z''
      (startup (\<lambda>i. ''id'') ''2026-01-01T00:00:00.000Z'' restartServer))
   \<noteq> backupFile (startup (\<lambda>i. ''id'') ''2026-01-01T00:00:00.000Z'' restartServer) \<and>
   (case backupFile (startup (\<lambda>i. ''id'') ''2026-01-01T00:00:00.000Z'' restartServer) of
      Doc j \<Rightarrow> j_lastBackup j | _ \<Rightarrow> None) = Some ''2026-01-01T00:00:00.000Z'' \<and>
   (case backupFile (startup (\<lambda>i. ''id'') ''2026-01-02T00:00:00.000Z''
      (startup (\<lambda>i. ''id'') ''2026-01-01T00:00:00.000Z'' restartServer)) of
      Doc j \<Rightarrow> j_lastBackup j | _ \<Rightarrow> None) = Some ''2026-01-02T00:00:00.000Z''"
  by code_simp

text \<open>The same two runs, with other identifiers offered to the second one.\<close>

theorem startup_twice_witness:
  "map s_name (b_subjects (fullBackupData
      (startup (\<lambda>i. ''id'') ''2026-01-01T00:00:00.000Z'' restartServer))) = [''Math''] \<and>
   metadataFile (startup (\<lambda>i. ''id2'') ''2026-01-02T00:00:00.000Z''
      (startup (\<lambda>i. ''id'') ''2026-01-01T00:00:00.000Z'' restartServer))
     = metadataFile (startup (\<lambda>i. ''id'') ''2026-01-01T00:00:00.000Z'' restartServer) \<and>
   withoutLastBackup (backupFile (startup (\<lambda>i. ''id2'') ''2026-01-02T00:00:00.000Z''
      (startup (\<lambda>i. ''id'') ''2026-01-01T00:00:00.000Z'' restartServer)))
     = withoutLastBackup (backupFile (startup (\<lambda>i. ''id'') ''2026-01-01T00:00:00.000Z'' restartServer)) \<and>
   backupFile (startup (\<lambda>i. ''id2'') ''2026-01-02T00:00:00.000Z''
      (startup (\<lambda>i. ''id'') ''2026-01-01T00:00:00.000Z'' restartServer))
     = Doc (backupData ''2026-01-02T00:00:00.000Z'' (fullBackupData
         (startup (\<lambda>i. ''id'') ''2026-01-01T00:00:00.000Z'' restartServer)))"
proof -
  let ?s1 = "startup (\<lambda>i. ''id'') ''2026-01-01T00:00:00.000Z'' restartServer"
  have n: "map s_name (b_subjects (fullBackupData ?s1)) = [''Math'']"
    by code_simp
  then have h: "b_subjects (fullBackupData ?s1) \<noteq> []" by auto
  show ?thesis
    using n h startup_twice[of "\<lambda>i. ''id2''" "''2026-01-02T00:00:00.000Z''" "\<lambda>i. ''id''"
        "''2026-01-01T00:00:00.000Z''" restartServer]
    by blast
qed

end
